theory Spec2Isabelle
  imports Main "HOL-Library.Multiset"
begin

section \<open>The two tables behind the service\<close>

text \<open>
  The backend keeps two tables in a hosted Postgres: \<open>logindata\<close> (accounts) and \<open>post\<close>
  (tasks). A row is a record with the column names of the source; the primary keys are
  called \<open>l_id\<close> and \<open>p_id\<close> because \<open>id\<close> is the identity function of HOL. The two boolean
  columns and \<open>timeofentry\<close> are copied from the request body without any check, so they are
  nullable (\<open>None\<close> is SQL NULL); \<open>task\<close>, \<open>type\<close> and \<open>remindertime\<close> are only ever inserted
  after the handler has rejected a missing value. \<open>user_id\<close> is the foreign key to
  \<open>logindata\<close>; nothing in the source makes it NOT NULL.
\<close>

record logindata_row =
  l_id :: nat
  email :: string
  password :: string
  firstname :: string
  lastname :: string

record post_row =
  p_id :: nat
  user_id :: "nat option"
  task :: string
  type :: string
  timeofentry :: "string option"
  completestatus :: "bool option"
  remindertime :: string
  currentstatus :: "bool option"

record store =
  logindata :: "logindata_row list"
  post :: "post_row list"
  post_id_seq :: nat

datatype error =
    QueryError string
  | ConnectionError string
  | TypeError string
  | SmtpError string

section \<open>Wall-clock time and its text form\<close>

text \<open>
  \<open>DateTime.now().setZone('Asia/Kolkata')\<close> is modelled by the number of milliseconds of
  local wall-clock time since 1970-01-01 00:00:00 in that zone (the zone has a fixed offset,
  so \<open>plus_time\<close> is plain addition). \<open>civil_from_days\<close> turns a day count into year, month and
  day of the proleptic Gregorian calendar, \<open>days_from_civil\<close> is its inverse.
\<close>

type_synonym DateTime = nat

definition plus_time :: "DateTime \<Rightarrow> nat \<Rightarrow> nat \<Rightarrow> DateTime" where
  "plus_time dt minutes seconds = dt + (minutes * 60 + seconds) * 1000"

text \<open>
  The calendar conversions are the standard era-based ones, written as a chain of small
  functions, each taking the values the previous step has computed.
\<close>

definition civil_of_month :: "nat \<Rightarrow> nat \<Rightarrow> nat \<Rightarrow> nat \<times> nat \<times> nat" where
  "civil_of_month y m d = (if m \<le> 2 then y + 1 else y, m, d)"

definition civil_of_mp :: "nat \<Rightarrow> nat \<Rightarrow> nat \<Rightarrow> nat \<times> nat \<times> nat" where
  "civil_of_mp y doy mp =
     civil_of_month y (if mp < 10 then mp + 3 else mp - 9) (doy - (153 * mp + 2) div 5 + 1)"

definition civil_of_doy :: "nat \<Rightarrow> nat \<Rightarrow> nat \<times> nat \<times> nat" where
  "civil_of_doy y doy = civil_of_mp y doy ((5 * doy + 2) div 153)"

definition civil_of_yoe :: "nat \<Rightarrow> nat \<Rightarrow> nat \<Rightarrow> nat \<times> nat \<times> nat" where
  "civil_of_yoe era doe yoe =
     civil_of_doy (yoe + era * 400) (doe - (365 * yoe + yoe div 4 - yoe div 100))"

definition civil_of_doe :: "nat \<Rightarrow> nat \<Rightarrow> nat \<times> nat \<times> nat" where
  "civil_of_doe era doe =
     civil_of_yoe era doe ((doe - doe div 1460 + doe div 36524 - doe div 146096) div 365)"

definition civil_from_days :: "nat \<Rightarrow> nat \<times> nat \<times> nat" where
  "civil_from_days days =
     civil_of_doe ((days + 719468) div 146097) ((days + 719468) mod 146097)"

definition days_of_era :: "nat \<Rightarrow> nat \<Rightarrow> nat \<Rightarrow> nat" where
  "days_of_era era yoe doy =
     era * 146097 + (yoe * 365 + yoe div 4 - yoe div 100 + doy) - 719468"

definition days_of_year :: "nat \<Rightarrow> nat \<Rightarrow> nat \<Rightarrow> nat" where
  "days_of_year y m d =
     days_of_era (y div 400) (y mod 400)
       ((153 * (if 2 < m then m - 3 else m + 9) + 2) div 5 + d - 1)"

definition days_from_civil :: "nat \<Rightarrow> nat \<Rightarrow> nat \<Rightarrow> nat" where
  "days_from_civil y m d = days_of_year (if m \<le> 2 then y - 1 else y) m d"

definition digit :: "nat \<Rightarrow> char" where
  "digit n = ''0123456789'' ! (n mod 10)"

function dec :: "nat \<Rightarrow> string" where
  "dec n = (if n < 10 then [digit n] else dec (n div 10) @ [digit n])"
  by pat_completeness auto
termination
  by (relation "measure (\<lambda>n. n)") auto

declare dec.simps [simp del]

definition padStart :: "nat \<Rightarrow> string \<Rightarrow> string" where
  "padStart k s = replicate (k - length s) CHR ''0'' @ s"

definition hour12 :: "nat \<Rightarrow> nat" where
  "hour12 h = (if h mod 12 = 0 then 12 else h mod 12)"

definition meridiem :: "nat \<Rightarrow> string" where
  "meridiem h = (if h < 12 then ''AM'' else ''PM'')"

text \<open>
  \<open>toFormat_padded dt\<close> is \<open>dt.toFormat('dd/MM/yyyy, hh:mm:ss a')\<close> and \<open>toFormat_plain dt\<close> is
  \<open>dt.toFormat('d/M/yyyy, h:mm:ss a')\<close>: the fraction of the second is dropped, the hour is
  on the 12-hour clock and the meridiem is upper case.
\<close>

fun format_date :: "nat \<Rightarrow> nat \<times> nat \<times> nat \<Rightarrow> string" where
  "format_date w (y, m, d) =
     padStart w (dec d) @ ''/'' @ padStart w (dec m) @ ''/'' @ padStart 4 (dec y)"

definition format_time :: "nat \<Rightarrow> nat \<Rightarrow> string" where
  "format_time w sod =
     padStart w (dec (hour12 (sod div 3600))) @ '':'' @ padStart 2 (dec (sod mod 3600 div 60))
     @ '':'' @ padStart 2 (dec (sod mod 60)) @ '' '' @ meridiem (sod div 3600)"

definition toFormat_gen :: "nat \<Rightarrow> DateTime \<Rightarrow> string" where
  "toFormat_gen w dt =
     format_date w (civil_from_days (dt div 1000 div 86400)) @ '', ''
     @ format_time w (dt div 1000 mod 86400)"

definition toFormat_padded :: "DateTime \<Rightarrow> string" where
  "toFormat_padded dt = toFormat_gen 2 dt"

definition toFormat_plain :: "DateTime \<Rightarrow> string" where
  "toFormat_plain dt = toFormat_gen 1 dt"

text \<open>
  \<open>to_timestamp s\<close> is the instant a text written in the pattern
  \<open>dd/MM/yyyy, hh:mm:ss a\<close> denotes, in seconds since the epoch of the same wall clock. The
  text is read piece by piece along the pattern: a number takes the digits that are there,
  up to the width of its field (so a field may be padded or not), the punctuation has to be
  the one of the pattern, and the meridiem is read in either case. The date has to exist
  in the calendar (no 31st of November, the 29th of February in leap years only), the hour
  is one of the 12-hour clock, and nothing may follow the meridiem. \<open>None\<close> when the text
  cannot be read so, or lies before 1970.
\<close>

definition digit_val :: "char \<Rightarrow> nat option" where
  "digit_val c = (if c \<in> set ''0123456789'' then Some (of_char c - 48) else None)"

fun number :: "string \<Rightarrow> nat option" where
  "number [] = None"
| "number cs =
     foldl (\<lambda>acc c. case (acc, digit_val c) of (Some a, Some v) \<Rightarrow> Some (10 * a + v) | _ \<Rightarrow> None)
       (Some 0) cs"

definition leap :: "nat \<Rightarrow> bool" where
  "leap y = (y mod 4 = 0 \<and> (y mod 100 \<noteq> 0 \<or> y mod 400 = 0))"

definition days_in_month :: "nat \<Rightarrow> nat \<Rightarrow> nat" where
  "days_in_month y m =
     (if m = 2 then (if leap y then 29 else 28)
      else if m = 4 \<or> m = 6 \<or> m = 9 \<or> m = 11 then 30
      else 31)"

definition timestamp_of :: "bool \<Rightarrow> nat \<Rightarrow> nat \<Rightarrow> nat \<Rightarrow> nat \<Rightarrow> nat \<Rightarrow> nat \<Rightarrow> nat option" where
  "timestamp_of pm d m y h mi sec =
     (if 1 \<le> m \<and> m \<le> 12 \<and> 1 \<le> d \<and> d \<le> days_in_month y m \<and> 1970 \<le> y
         \<and> 1 \<le> h \<and> h \<le> 12 \<and> mi < 60 \<and> sec < 60
      then Some (days_from_civil y m d * 86400
                 + ((h mod 12 + (if pm then 12 else 0)) * 3600 + mi * 60 + sec))
      else None)"

datatype piece = Num nat | Lit string | Meridiem

definition take_digits :: "nat \<Rightarrow> string \<Rightarrow> string" where
  "take_digits k s = takeWhile (\<lambda>c. c \<in> set ''0123456789'') (take k s)"

fun read_pieces :: "piece list \<Rightarrow> string \<Rightarrow> nat list \<Rightarrow> nat list option" where
  "read_pieces [] s acc = (if s = [] then Some acc else None)"
| "read_pieces (Num k # ps) s acc =
     (case number (take_digits k s) of
        None \<Rightarrow> None
      | Some n \<Rightarrow> read_pieces ps (drop (length (take_digits k s)) s) (acc @ [n]))"
| "read_pieces (Lit l # ps) s acc =
     (if take (length l) s = l then read_pieces ps (drop (length l) s) acc else None)"
| "read_pieces (Meridiem # ps) s acc =
     (if take 2 s \<in> {''AM'', ''Am'', ''aM'', ''am''} then read_pieces ps (drop 2 s) (acc @ [0])
      else if take 2 s \<in> {''PM'', ''Pm'', ''pM'', ''pm''} then read_pieces ps (drop 2 s) (acc @ [1])
      else None)"

definition pattern :: "piece list" where
  "pattern = [Num 2, Lit ''/'', Num 2, Lit ''/'', Num 4, Lit '', '', Num 2, Lit '':'', Num 2,
              Lit '':'', Num 2, Lit '' '', Meridiem]"

fun timestamp_of_fields :: "nat list \<Rightarrow> nat option" where
  "timestamp_of_fields [d, m, y, h, mi, sec, pm] = timestamp_of (pm = 1) d m y h mi sec"
| "timestamp_of_fields parts = None"

definition to_timestamp :: "string \<Rightarrow> nat option" where
  "to_timestamp s =
     (case read_pieces pattern s [] of
        None \<Rightarrow> None
      | Some parts \<Rightarrow> timestamp_of_fields parts)"

text \<open>
  \<open>remindertime\<close> is a \<open>text\<close> column (the SQL of the first version has to run it through
  \<open>TO_TIMESTAMP\<close>), so \<open>gte\<close> and \<open>lte\<close> on it compare texts. \<open>text_le a b\<close> is \<open>a <= b\<close>
  character by character under the byte order. The texts compared here differ in digits and
  in the letters A and P only, with the punctuation at the same places.
\<close>

fun text_le :: "string \<Rightarrow> string \<Rightarrow> bool" where
  "text_le [] b = True"
| "text_le (x # a) [] = False"
| "text_le (x # a) (y # b) =
     (if (of_char x :: nat) < of_char y then True
      else if x = y then text_le a b
      else False)"

section \<open>The reminder job\<close>

text \<open>
  The function \<open>checkAndSendReminders\<close> exists in three versions: that of \<open>index.js\<close>
  (Supabase client, the window compared on the stored text), the first version on a
  Postgres client (\<open>src/unnamed/part_000\<close>: one SQL query with a JOIN and \<open>TO_TIMESTAMP\<close>),
  and the version scheduled with node-cron (\<open>src/unnamed/part_001\<close>: Supabase client, every
  send in a \<open>try\<close> of its own). They are modelled side by side with the suffixes
  \<open>_index\<close>, \<open>_pg\<close> and \<open>_cron\<close>.

  What lies outside the repository is a parameter: \<open>SMTP_EMAIL\<close> is the environment
  variable, \<open>store_fault\<close> says whether this call to the store fails, because the store
  rejects it (\<open>QueryError\<close>) or cannot be reached (\<open>ConnectionError\<close>), \<open>sendMail\<close> is the
  transporter (\<open>None\<close> when the message was accepted), \<open>timestamptz_in\<close> is the server's
  conversion of a text parameter to a timestamp (it depends on the server's date style),
  \<open>TO_TIMESTAMP\<close> is the server's function of that name, applied to a text and a pattern
  (\<open>None\<close> when it raises), and \<open>in_filter\<close> is what PostgREST makes of the operand of an
  \<open>in\<close> filter: \<open>None\<close> when it rejects the request, otherwise the set of column values
  it keeps. \<open>jwt_verify\<close> checks a token against the secret and gives the \<open>userId\<close> and
  \<open>email\<close> it carries.
\<close>

record mailOptions =
  from_addr :: string
  to_addr :: string
  subject :: string
  text_body :: string

record services =
  SMTP_EMAIL :: string
  store_fault :: "error option"
  sendMail :: "mailOptions \<Rightarrow> error option"
  timestamptz_in :: "string \<Rightarrow> nat option"
  TO_TIMESTAMP :: "string \<Rightarrow> string \<Rightarrow> nat option"
  in_filter :: "string \<Rightarrow> (string \<Rightarrow> bool) option"
  jwt_verify :: "string \<Rightarrow> (nat \<times> string) option"

datatype log_line =
    Cron_job_triggered
  | Checking_window string string
  | Supabase_query_error error
  | Tasks_found nat
  | Email_sent string
  | Failed_to_send string error
  | No_tasks_found string string
  | Error_in_check error

text \<open>
  What a tick leaves behind outside the store: the messages handed to the transporter in the
  order of the calls, those it accepted, and the lines written to the console.
\<close>

record effects =
  attempted :: "mailOptions list"
  delivered :: "mailOptions list"
  console :: "log_line list"

datatype completion = Returned | Threw error

type_synonym embedded_row = "post_row \<times> logindata_row option"
type_synonym joined_row = "post_row \<times> logindata_row"

definition nl :: string where
  "nl = [CHR 0x0A]"

definition apostrophe :: string where
  "apostrophe = [CHR 0x27]"

definition heart :: string where
  "heart = [CHR 0xC3, CHR 0xB0, CHR 0xC5, CHR 0xB8, CHR 0xC2, CHR 0xA9, CHR 0xC2, CHR 0xB7]"

subsection \<open>The store queries\<close>

text \<open>
  The Supabase select embeds the owner through the foreign key: a task whose \<open>user_id\<close> is
  NULL or names no account comes back with \<open>logindata: null\<close>.
\<close>

definition embed_logindata :: "store \<Rightarrow> post_row \<Rightarrow> embedded_row" where
  "embed_logindata st p =
     (p, case user_id p of None \<Rightarrow> None
         | Some u \<Rightarrow> find (\<lambda>l. l_id l = u) (logindata st))"

definition select_due_index ::
  "services \<Rightarrow> store \<Rightarrow> string \<Rightarrow> string \<Rightarrow> (error + embedded_row list) \<times> store" where
  "select_due_index sv st lower upper =
     (case store_fault sv of
        Some e \<Rightarrow> (Inl e, st)
      | None \<Rightarrow>
          (Inr (map (embed_logindata st)
                 (filter (\<lambda>p. completestatus p = Some False
                              \<and> text_le lower (remindertime p)
                              \<and> text_le (remindertime p) upper)
                    (post st))), st))"

text \<open>
  The SQL of the first version: an inner join on the owner, the flag, and
  \<open>TO_TIMESTAMP(p.remindertime, 'DD/MM/YYYY, HH12:MI:SS AM')\<close> between the two parameters.
  Both conditions are on \<open>post\<close> alone and the server applies them to its rows before it
  joins, the flag first: \<open>TO_TIMESTAMP\<close> runs on every pending row, with an owner or without,
  and one reminder text it cannot read fails the whole query. The two parameters are texts
  the server has to convert before it runs the query.
\<close>

definition sql_pattern :: string where
  "sql_pattern = ''DD/MM/YYYY, HH12:MI:SS AM''"

definition joined :: "store \<Rightarrow> joined_row list" where
  "joined st =
     concat (map (\<lambda>p. map (\<lambda>l. (p, l)) (filter (\<lambda>l. user_id p = Some (l_id l)) (logindata st)))
               (post st))"

definition between :: "services \<Rightarrow> nat \<Rightarrow> nat \<Rightarrow> joined_row \<Rightarrow> bool" where
  "between sv lo hi row =
     (case TO_TIMESTAMP sv (remindertime (fst row)) sql_pattern of
        None \<Rightarrow> False
      | Some t \<Rightarrow> lo \<le> t \<and> t \<le> hi)"

definition select_due_pg ::
  "services \<Rightarrow> store \<Rightarrow> string \<Rightarrow> string \<Rightarrow> (error + joined_row list) \<times> store" where
  "select_due_pg sv st lower upper =
     (case store_fault sv of
        Some e \<Rightarrow> (Inl e, st)
      | None \<Rightarrow>
          (case (timestamptz_in sv lower, timestamptz_in sv upper) of
             (Some lo, Some hi) \<Rightarrow>
               (if list_ex (\<lambda>p. completestatus p = Some False
                                \<and> TO_TIMESTAMP sv (remindertime p) sql_pattern = None) (post st)
                then (Inl (QueryError ''invalid value for to_timestamp''), st)
                else (Inr (filter (between sv lo hi)
                             (filter (\<lambda>row. completestatus (fst row) = Some False) (joined st))),
                      st))
           | _ \<Rightarrow> (Inl (QueryError ''invalid input syntax for type timestamp''), st)))"

definition in_operand :: "string \<Rightarrow> string \<Rightarrow> string" where
  "in_operand lower upper =
     ''('' @ nl
     @ ''        SELECT remindertime '' @ nl
     @ ''        FROM post '' @ nl
     @ ''        WHERE TO_TIMESTAMP(remindertime, '' @ apostrophe @ ''DD/M/YYYY, H:MM:SS pm''
     @ apostrophe @ '') '' @ nl
     @ ''          BETWEEN TO_TIMESTAMP('' @ apostrophe @ lower @ apostrophe @ '', '' @ apostrophe
     @ ''DD/M/YYYY, H:MM:SS pm'' @ apostrophe @ '') '' @ nl
     @ ''          AND TO_TIMESTAMP('' @ apostrophe @ upper @ apostrophe @ '', '' @ apostrophe
     @ ''DD/M/YYYY, H:MM:SS pm'' @ apostrophe @ '')'' @ nl
     @ ''      )''"

definition select_due_cron ::
  "services \<Rightarrow> store \<Rightarrow> string \<Rightarrow> string \<Rightarrow> (error + embedded_row list) \<times> store" where
  "select_due_cron sv st lower upper =
     (case store_fault sv of
        Some e \<Rightarrow> (Inl e, st)
      | None \<Rightarrow>
          (case in_filter sv (in_operand lower upper) of
             None \<Rightarrow> (Inl (QueryError ''failed to parse filter''), st)
           | Some keep \<Rightarrow>
               (Inr (map (embed_logindata st)
                      (filter (\<lambda>p. completestatus p = Some False \<and> keep (remindertime p))
                         (post st))), st)))"

subsection \<open>The message\<close>

definition reminder_text :: "string \<Rightarrow> string \<Rightarrow> string \<Rightarrow> string \<Rightarrow> string \<Rightarrow> string" where
  "reminder_text fname lname at kind what =
     ''Dear '' @ fname @ '' '' @ lname @ '','' @ nl @ nl
     @ ''This is a reminder for your task which is scheduled at '' @ at @ nl
     @ '' Type: '' @ kind @ nl
     @ '' Task: '' @ what @ ''.'' @ nl
     @ '' Please complete it soon!'' @ nl @ nl
     @ ''Best regards,'' @ nl
     @ ''Daily task Tracker '' @ heart"

definition reminder_text_cron :: "string \<Rightarrow> string \<Rightarrow> string \<Rightarrow> string \<Rightarrow> string \<Rightarrow> string" where
  "reminder_text_cron fname lname at kind what =
     ''Dear '' @ fname @ '' '' @ lname @ '','' @ nl @ nl
     @ ''This is a reminder for your task scheduled at '' @ at @ nl
     @ ''Type: '' @ kind @ nl
     @ ''Task: '' @ what @ ''.'' @ nl
     @ ''Please complete it soon!'' @ nl @ nl
     @ ''Best regards,'' @ nl
     @ ''Daily Task Tracker '' @ heart"

text \<open>
  Building the message reads \<open>row.logindata.email\<close>; on a row whose embedded owner is null
  this raises a TypeError.
\<close>

definition mailOptions_index :: "services \<Rightarrow> embedded_row \<Rightarrow> error + mailOptions" where
  "mailOptions_index sv row =
     (case snd row of
        None \<Rightarrow> Inl (TypeError ''Cannot read properties of null'')
      | Some l \<Rightarrow>
          Inr \<lparr>from_addr = SMTP_EMAIL sv, to_addr = email l,
               subject = ''Upcoming Task Reminder'',
               text_body = reminder_text (firstname l) (lastname l) (remindertime (fst row))
                             (type (fst row)) (task (fst row))\<rparr>)"

definition mailOptions_pg :: "services \<Rightarrow> joined_row \<Rightarrow> mailOptions" where
  "mailOptions_pg sv row =
     \<lparr>from_addr = SMTP_EMAIL sv, to_addr = email (snd row),
      subject = ''Upcoming Task Reminder'',
      text_body = reminder_text (firstname (snd row)) (lastname (snd row))
                    (remindertime (fst row)) (type (fst row)) (task (fst row))\<rparr>"

definition mailOptions_cron :: "services \<Rightarrow> embedded_row \<Rightarrow> error + mailOptions" where
  "mailOptions_cron sv row =
     (case snd row of
        None \<Rightarrow> Inl (TypeError ''Cannot read properties of null'')
      | Some l \<Rightarrow>
          Inr \<lparr>from_addr = SMTP_EMAIL sv, to_addr = email l,
               subject = ''Upcoming Task Reminder'',
               text_body = reminder_text_cron (firstname l) (lastname l)
                             (remindertime (fst row)) (type (fst row)) (task (fst row))\<rparr>)"

subsection \<open>The loop over the matched rows\<close>

text \<open>
  Each loop returns the exception that left it, if any. In \<open>index.js\<close> and in the first
  version nothing inside the loop catches, so the first failure ends the loop. In the cron
  version the send sits in its own \<open>try\<close>, the construction of the message does not.
\<close>

fun for_rows_index :: "services \<Rightarrow> embedded_row list \<Rightarrow> effects \<Rightarrow> error option \<times> effects" where
  "for_rows_index sv [] fx = (None, fx)"
| "for_rows_index sv (row # rows) fx =
     (case mailOptions_index sv row of
        Inl e \<Rightarrow> (Some e, fx)
      | Inr m \<Rightarrow>
          (case sendMail sv m of
             Some e \<Rightarrow> (Some e, fx\<lparr>attempted := attempted fx @ [m]\<rparr>)
           | None \<Rightarrow>
               for_rows_index sv rows
                 (fx\<lparr>attempted := attempted fx @ [m], delivered := delivered fx @ [m]\<rparr>)))"

fun for_rows_pg :: "services \<Rightarrow> joined_row list \<Rightarrow> effects \<Rightarrow> error option \<times> effects" where
  "for_rows_pg sv [] fx = (None, fx)"
| "for_rows_pg sv (row # rows) fx =
     (case sendMail sv (mailOptions_pg sv row) of
        Some e \<Rightarrow> (Some e, fx\<lparr>attempted := attempted fx @ [mailOptions_pg sv row]\<rparr>)
      | None \<Rightarrow>
          for_rows_pg sv rows
            (fx\<lparr>attempted := attempted fx @ [mailOptions_pg sv row],
                delivered := delivered fx @ [mailOptions_pg sv row],
                console := console fx @ [Email_sent (email (snd row))]\<rparr>))"

fun for_rows_cron :: "services \<Rightarrow> embedded_row list \<Rightarrow> effects \<Rightarrow> error option \<times> effects" where
  "for_rows_cron sv [] fx = (None, fx)"
| "for_rows_cron sv (row # rows) fx =
     (case mailOptions_cron sv row of
        Inl e \<Rightarrow> (Some e, fx)
      | Inr m \<Rightarrow>
          (case sendMail sv m of
             Some emailError \<Rightarrow>
               for_rows_cron sv rows
                 (fx\<lparr>attempted := attempted fx @ [m],
                     console := console fx @ [Failed_to_send (to_addr m) emailError]\<rparr>)
           | None \<Rightarrow>
               for_rows_cron sv rows
                 (fx\<lparr>attempted := attempted fx @ [m], delivered := delivered fx @ [m],
                     console := console fx @ [Email_sent (to_addr m)]\<rparr>)))"

subsection \<open>One tick\<close>

text \<open>
  \<open>try_*\<close> is the body of the \<open>try\<close> block and returns the exception that leaves it;
  \<open>checkAndSendReminders_*\<close> adds the \<open>catch\<close>. The handler of \<open>index.js\<close> is empty (its
  logging call is commented out, like every other console call of that function); the
  other two write the error to the console.
\<close>

definition try_index :: "services \<Rightarrow> DateTime \<Rightarrow> store \<Rightarrow> effects \<Rightarrow> error option \<times> store \<times> effects" where
  "try_index sv now st fx =
     (case select_due_index sv st (toFormat_padded (plus_time now 14 30))
                                  (toFormat_padded (plus_time now 15 30)) of
        (Inl e, st') \<Rightarrow> (Some e, st', fx)
      | (Inr tasks, st') \<Rightarrow>
          (if 0 < length tasks
           then (case for_rows_index sv tasks fx of (r, fx') \<Rightarrow> (r, st', fx'))
           else (None, st', fx)))"

definition checkAndSendReminders_index ::
  "services \<Rightarrow> DateTime \<Rightarrow> store \<Rightarrow> effects \<Rightarrow> completion \<times> store \<times> effects" where
  "checkAndSendReminders_index sv now st fx =
     (case try_index sv now st fx of
        (Some err, st', fx') \<Rightarrow> (Returned, st', fx')
      | (None, st', fx') \<Rightarrow> (Returned, st', fx'))"

definition try_pg :: "services \<Rightarrow> DateTime \<Rightarrow> store \<Rightarrow> effects \<Rightarrow> error option \<times> store \<times> effects" where
  "try_pg sv now st fx =
     (case select_due_pg sv st (toFormat_padded (plus_time now 14 30))
                               (toFormat_padded (plus_time now 15 30)) of
        (Inl e, st') \<Rightarrow> (Some e, st', fx)
      | (Inr rows, st') \<Rightarrow>
          (if 0 < length rows
           then (case for_rows_pg sv rows (fx\<lparr>console := console fx @ [Tasks_found (length rows)]\<rparr>) of
                   (r, fx') \<Rightarrow> (r, st', fx'))
           else (None, st', fx)))"

definition checkAndSendReminders_pg ::
  "services \<Rightarrow> DateTime \<Rightarrow> store \<Rightarrow> effects \<Rightarrow> completion \<times> store \<times> effects" where
  "checkAndSendReminders_pg sv now st fx =
     (case try_pg sv now st fx of
        (Some err, st', fx') \<Rightarrow> (Returned, st', fx'\<lparr>console := console fx' @ [Error_in_check err]\<rparr>)
      | (None, st', fx') \<Rightarrow> (Returned, st', fx'))"

definition try_cron :: "services \<Rightarrow> DateTime \<Rightarrow> store \<Rightarrow> effects \<Rightarrow> error option \<times> store \<times> effects" where
  "try_cron sv now st fx =
     (let lower = toFormat_plain (plus_time now 14 30);
          upper = toFormat_plain (plus_time now 15 30);
          fx1 = fx\<lparr>console := console fx @ [Checking_window lower upper]\<rparr>
      in case select_due_cron sv st lower upper of
           (Inl e, st') \<Rightarrow> (Some e, st', fx1\<lparr>console := console fx1 @ [Supabase_query_error e]\<rparr>)
         | (Inr tasks, st') \<Rightarrow>
             (if 0 < length tasks
              then (case for_rows_cron sv tasks
                           (fx1\<lparr>console := console fx1 @ [Tasks_found (length tasks)]\<rparr>) of
                      (r, fx') \<Rightarrow> (r, st', fx'))
              else (None, st', fx1\<lparr>console := console fx1 @ [No_tasks_found lower upper]\<rparr>)))"

definition checkAndSendReminders_cron ::
  "services \<Rightarrow> DateTime \<Rightarrow> store \<Rightarrow> effects \<Rightarrow> completion \<times> store \<times> effects" where
  "checkAndSendReminders_cron sv now st fx =
     (case try_cron sv now st fx of
        (Some err, st', fx') \<Rightarrow> (Returned, st', fx'\<lparr>console := console fx' @ [Error_in_check err]\<rparr>)
      | (None, st', fx') \<Rightarrow> (Returned, st', fx'))"

text \<open>
  The job runs the ticks one after the other. A tick that threw would reject the promise of
  the callback and end the process, so the ticks after it would not run.

  The two Supabase versions reach the store over HTTP, one request per call, and the client
  hands every failure back as the \<open>error\<close> of the call. The first version holds one
  connection, opened when the program starts by a \<open>connect()\<close> that nothing awaits, on a
  client with no listener for its \<open>error\<close> event: when the store cannot be reached the client
  raises outside every \<open>try\<close> and the process ends, whatever the tick would have done. The
  callback of the cron version writes a line to the console before it calls the function.
\<close>

definition connection_lost :: "services \<Rightarrow> bool" where
  "connection_lost sv =
     (case store_fault sv of
        Some (ConnectionError msg) \<Rightarrow> True
      | _ \<Rightarrow> False)"

fun CronJob_index :: "(services \<times> DateTime) list \<Rightarrow> store \<Rightarrow> effects \<Rightarrow> completion \<times> store \<times> effects" where
  "CronJob_index [] st fx = (Returned, st, fx)"
| "CronJob_index ((sv, now) # ticks) st fx =
     (case checkAndSendReminders_index sv now st fx of
        (Threw e, st', fx') \<Rightarrow> (Threw e, st', fx')
      | (Returned, st', fx') \<Rightarrow> CronJob_index ticks st' fx')"

fun CronJob_pg :: "(services \<times> DateTime) list \<Rightarrow> store \<Rightarrow> effects \<Rightarrow> completion \<times> store \<times> effects" where
  "CronJob_pg [] st fx = (Returned, st, fx)"
| "CronJob_pg ((sv, now) # ticks) st fx =
     (case store_fault sv of
        Some (ConnectionError msg) \<Rightarrow> (Threw (ConnectionError msg), st, fx)
      | _ \<Rightarrow>
          (case checkAndSendReminders_pg sv now st fx of
             (Threw e, st', fx') \<Rightarrow> (Threw e, st', fx')
           | (Returned, st', fx') \<Rightarrow> CronJob_pg ticks st' fx'))"

fun CronJob_cron :: "(services \<times> DateTime) list \<Rightarrow> store \<Rightarrow> effects \<Rightarrow> completion \<times> store \<times> effects" where
  "CronJob_cron [] st fx = (Returned, st, fx)"
| "CronJob_cron ((sv, now) # ticks) st fx =
     (case checkAndSendReminders_cron sv now st
             (fx\<lparr>console := console fx @ [Cron_job_triggered]\<rparr>) of
        (Threw e, st', fx') \<Rightarrow> (Threw e, st', fx')
      | (Returned, st', fx') \<Rightarrow> CronJob_cron ticks st' fx')"

section \<open>The task routes\<close>

text \<open>
  A request carries the \<open>authorization\<close> header, the \<open>:id\<close> of the path and the fields of
  the JSON body the handlers read; a field that is absent is \<open>None\<close>. The handlers are those
  of \<open>index.js\<close>; the cron version has the same ones.
\<close>

record request =
  authorization :: "string option"
  param_id :: string
  b_task :: "string option"
  b_type :: "string option"
  b_timeofentry :: "string option"
  b_completestatus :: "bool option"
  b_remindertime :: "string option"
  b_currentstatus :: "bool option"
  b_editedtask :: "string option"
  b_editedtype :: "string option"

datatype json =
    PostRows "post_row list"
  | PostRow post_row
  | ReminderCounts nat nat
  | PieCounts nat nat nat nat
  | ErrorBody string

record response =
  status :: nat
  body :: json

datatype route =
    GET_tasks
  | GET_taskschange
  | POST_tasks
  | PATCH_tasks
  | PATCH_dtasks
  | PUT_tasks
  | PATCH_taskschange
  | GET_reminders
  | GET_reminderspie

fun split_space :: "string \<Rightarrow> string list" where
  "split_space [] = [Nil]"
| "split_space (c # cs) =
     (if c = CHR '' '' then [] # split_space cs
      else (case split_space cs of
              [] \<Rightarrow> [c] # []
            | w # ws \<Rightarrow> (c # w) # ws))"

definition bearer_token :: "string option \<Rightarrow> string option" where
  "bearer_token authHeader =
     (case authHeader of
        None \<Rightarrow> None
      | Some h \<Rightarrow> (if h = [] then None
                   else (case split_space h of
                           a # t # rest \<Rightarrow> (if t = [] then None else Some t)
                         | _ \<Rightarrow> None)))"

definition validateToken :: "services \<Rightarrow> request \<Rightarrow> response + nat \<times> string" where
  "validateToken sv req =
     (case bearer_token (authorization req) of
        None \<Rightarrow> Inl \<lparr>status = 401, body = ErrorBody ''Access denied: No token provided''\<rparr>
      | Some token \<Rightarrow>
          (case jwt_verify sv token of
             None \<Rightarrow> Inl \<lparr>status = 403, body = ErrorBody ''Invalid or expired token''\<rparr>
           | Some decoded \<Rightarrow> Inr decoded))"

definition falsy :: "string option \<Rightarrow> bool" where
  "falsy v = (v = None \<or> v = Some [])"

text \<open>
  \<open>order('timeofentry', { ascending: false })\<close>: descending on the text, NULLs first as
  Postgres places them; an insertion sort that keeps the table order among equal keys.
\<close>

fun key_ge :: "string option \<Rightarrow> string option \<Rightarrow> bool" where
  "key_ge None b = True"
| "key_ge (Some a) None = False"
| "key_ge (Some a) (Some b) = text_le b a"

fun insert_desc :: "post_row \<Rightarrow> post_row list \<Rightarrow> post_row list" where
  "insert_desc p [] = [p]"
| "insert_desc p (q # qs) =
     (if key_ge (timeofentry p) (timeofentry q) then p # q # qs else q # insert_desc p qs)"

definition order_desc :: "post_row list \<Rightarrow> post_row list" where
  "order_desc ps = foldr insert_desc ps []"

definition select_posts ::
  "services \<Rightarrow> store \<Rightarrow> (post_row \<Rightarrow> bool) \<Rightarrow> (error + post_row list) \<times> store" where
  "select_posts sv st keep =
     (case store_fault sv of
        Some e \<Rightarrow> (Inl e, st)
      | None \<Rightarrow> (Inr (filter keep (post st)), st))"

text \<open>
  \<open>insert([...]).select('*').single()\<close>: the store assigns the key from its sequence and
  returns the new row.
\<close>

definition insert_post :: "services \<Rightarrow> store \<Rightarrow> post_row \<Rightarrow> (error + post_row) \<times> store" where
  "insert_post sv st row =
     (case store_fault sv of
        Some e \<Rightarrow> (Inl e, st)
      | None \<Rightarrow>
          (Inr (row\<lparr>p_id := post_id_seq st\<rparr>),
           st\<lparr>post := post st @ [row\<lparr>p_id := post_id_seq st\<rparr>],
              post_id_seq := Suc (post_id_seq st)\<rparr>))"

text \<open>
  \<open>update(...).eq('id', id).eq('user_id', userId).select('*').single()\<close>: the rows with
  that key and that owner are changed; \<open>single()\<close> turns any number of changed rows other
  than one into an error, and the store then keeps nothing of the update. An \<open>id\<close> that is
  not a number is rejected by the store.
\<close>

definition update_single ::
  "services \<Rightarrow> store \<Rightarrow> string \<Rightarrow> nat \<Rightarrow> (post_row \<Rightarrow> post_row) \<Rightarrow> (error + post_row) \<times> store" where
  "update_single sv st ident userId change =
     (case store_fault sv of
        Some e \<Rightarrow> (Inl e, st)
      | None \<Rightarrow>
          (case number ident of
             None \<Rightarrow> (Inl (QueryError ''invalid input syntax for type integer''), st)
           | Some i \<Rightarrow>
               (case filter (\<lambda>p. p_id p = i \<and> user_id p = Some userId) (post st) of
                  [p] \<Rightarrow>
                    (Inr (change p),
                     st\<lparr>post := map (\<lambda>q. if p_id q = i \<and> user_id q = Some userId
                                          then change q else q) (post st)\<rparr>)
                | _ \<Rightarrow> (Inl (QueryError ''JSON object requested, multiple (or no) rows returned''), st))))"

definition set_status :: "bool option \<Rightarrow> bool option \<Rightarrow> post_row \<Rightarrow> post_row" where
  "set_status c cu p =
     p\<lparr>completestatus := (case c of None \<Rightarrow> completestatus p | Some v \<Rightarrow> Some v),
       currentstatus := (case cu of None \<Rightarrow> currentstatus p | Some v \<Rightarrow> Some v)\<rparr>"

definition set_content :: "string option \<Rightarrow> string option \<Rightarrow> post_row \<Rightarrow> post_row" where
  "set_content t ty p =
     p\<lparr>task := (case t of None \<Rightarrow> task p | Some v \<Rightarrow> v),
       type := (case ty of None \<Rightarrow> type p | Some v \<Rightarrow> v)\<rparr>"

definition failed :: "string \<Rightarrow> response" where
  "failed msg = \<lparr>status = 500, body = ErrorBody msg\<rparr>"

definition get_tasks :: "services \<Rightarrow> nat \<Rightarrow> store \<Rightarrow> response \<times> store" where
  "get_tasks sv userId st =
     (case select_posts sv st (\<lambda>p. user_id p = Some userId \<and> completestatus p = Some False
                                    \<and> currentstatus p = Some False) of
        (Inl e, st') \<Rightarrow> (failed ''Failed to fetch pending tasks'', st')
      | (Inr tasks, st') \<Rightarrow> (\<lparr>status = 200, body = PostRows (order_desc tasks)\<rparr>, st'))"

definition get_taskschange :: "services \<Rightarrow> nat \<Rightarrow> store \<Rightarrow> response \<times> store" where
  "get_taskschange sv userId st =
     (case select_posts sv st (\<lambda>p. user_id p = Some userId \<and> completestatus p = Some True
                                    \<and> currentstatus p = Some False) of
        (Inl e, st') \<Rightarrow> (failed ''Failed to fetch completed tasks'', st')
      | (Inr tasks, st') \<Rightarrow> (\<lparr>status = 200, body = PostRows (order_desc tasks)\<rparr>, st'))"

definition post_tasks :: "services \<Rightarrow> nat \<Rightarrow> request \<Rightarrow> store \<Rightarrow> response \<times> store" where
  "post_tasks sv userId req st =
     (case (b_task req, b_type req, b_remindertime req) of
        (Some t, Some ty, Some r) \<Rightarrow>
          (if t = [] \<or> ty = [] \<or> r = []
           then (\<lparr>status = 400, body = ErrorBody ''Task, type, and remindertime are required''\<rparr>, st)
           else (case insert_post sv st
                        \<lparr>p_id = 0, user_id = Some userId, task = t, type = ty,
                         timeofentry = b_timeofentry req, completestatus = b_completestatus req,
                         remindertime = r, currentstatus = b_currentstatus req\<rparr> of
                   (Inl e, st') \<Rightarrow> (failed ''Failed to add task'', st')
                 | (Inr newTask, st') \<Rightarrow> (\<lparr>status = 201, body = PostRow newTask\<rparr>, st')))
      | _ \<Rightarrow> (\<lparr>status = 400, body = ErrorBody ''Task, type, and remindertime are required''\<rparr>, st))"

definition patch_status :: "string \<Rightarrow> services \<Rightarrow> nat \<Rightarrow> request \<Rightarrow> store \<Rightarrow> response \<times> store" where
  "patch_status msg sv userId req st =
     (case update_single sv st (param_id req) userId
             (set_status (b_completestatus req) (b_currentstatus req)) of
        (Inl e, st') \<Rightarrow> (failed msg, st')
      | (Inr updatedTask, st') \<Rightarrow> (\<lparr>status = 200, body = PostRow updatedTask\<rparr>, st'))"

definition patch_tasks :: "services \<Rightarrow> nat \<Rightarrow> request \<Rightarrow> store \<Rightarrow> response \<times> store" where
  "patch_tasks = patch_status ''Failed to update task status''"

definition patch_dtasks :: "services \<Rightarrow> nat \<Rightarrow> request \<Rightarrow> store \<Rightarrow> response \<times> store" where
  "patch_dtasks = patch_status ''Failed to update task status''"

definition patch_taskschange :: "services \<Rightarrow> nat \<Rightarrow> request \<Rightarrow> store \<Rightarrow> response \<times> store" where
  "patch_taskschange = patch_status ''Failed to undo task''"

definition put_tasks :: "services \<Rightarrow> nat \<Rightarrow> request \<Rightarrow> store \<Rightarrow> response \<times> store" where
  "put_tasks sv userId req st =
     (if falsy (b_editedtask req)
      then (\<lparr>status = 400, body = ErrorBody ''Task content is required''\<rparr>, st)
      else (case update_single sv st (param_id req) userId
                   (set_content (b_editedtask req) (b_editedtype req)) of
              (Inl e, st') \<Rightarrow> (failed ''Failed to update task'', st')
            | (Inr updatedTask, st') \<Rightarrow> (\<lparr>status = 200, body = PostRow updatedTask\<rparr>, st')))"

definition get_reminders :: "services \<Rightarrow> nat \<Rightarrow> store \<Rightarrow> response \<times> store" where
  "get_reminders sv userId st =
     (case select_posts sv st (\<lambda>p. user_id p = Some userId) of
        (Inl e, st') \<Rightarrow> (failed ''Failed to fetch pending tasks'', st')
      | (Inr tasks, st') \<Rightarrow>
          (\<lparr>status = 200,
            body = ReminderCounts (length tasks)
                     (length (filter (\<lambda>t. completestatus t = Some False
                                          \<and> currentstatus t = Some False) tasks))\<rparr>, st'))"

definition get_reminderspie :: "services \<Rightarrow> nat \<Rightarrow> store \<Rightarrow> response \<times> store" where
  "get_reminderspie sv userId st =
     (case select_posts sv st (\<lambda>p. user_id p = Some userId \<and> completestatus p = Some True
                                    \<and> currentstatus p = Some True) of
        (Inl e, st') \<Rightarrow> (failed ''Failed to fetch reminders'', st')
      | (Inr tasks, st') \<Rightarrow>
          (\<lparr>status = 200,
            body = PieCounts (length (filter (\<lambda>t. type t = ''Personal'') tasks))
                             (length (filter (\<lambda>t. type t = ''Family'') tasks))
                             (length (filter (\<lambda>t. type t = ''Work'') tasks))
                             (length (filter (\<lambda>t. type t = ''Group Activity'') tasks))\<rparr>, st'))"

text \<open>The router: every task route runs \<open>validateToken\<close> first.\<close>

fun handler :: "route \<Rightarrow> services \<Rightarrow> nat \<Rightarrow> request \<Rightarrow> store \<Rightarrow> response \<times> store" where
  "handler GET_tasks sv userId req st = get_tasks sv userId st"
| "handler GET_taskschange sv userId req st = get_taskschange sv userId st"
| "handler POST_tasks sv userId req st = post_tasks sv userId req st"
| "handler PATCH_tasks sv userId req st = patch_tasks sv userId req st"
| "handler PATCH_dtasks sv userId req st = patch_dtasks sv userId req st"
| "handler PUT_tasks sv userId req st = put_tasks sv userId req st"
| "handler PATCH_taskschange sv userId req st = patch_taskschange sv userId req st"
| "handler GET_reminders sv userId req st = get_reminders sv userId st"
| "handler GET_reminderspie sv userId req st = get_reminderspie sv userId st"

definition serve :: "route \<Rightarrow> services \<Rightarrow> request \<Rightarrow> store \<Rightarrow> response \<times> store" where
  "serve r sv req st =
     (case validateToken sv req of
        Inl denied \<Rightarrow> (denied, st)
      | Inr decoded \<Rightarrow> handler r sv (fst decoded) req st)"

text \<open>The task rows a response carries, and the view of the table one user has.\<close>

fun rows_of :: "json \<Rightarrow> post_row list" where
  "rows_of (PostRows rs) = rs"
| "rows_of (PostRow r) = [r]"
| "rows_of other = []"

definition owned_by :: "nat \<Rightarrow> post_row \<Rightarrow> bool" where
  "owned_by userId p = (user_id p = Some userId)"

definition restrict_to :: "nat \<Rightarrow> store \<Rightarrow> store" where
  "restrict_to userId st = st\<lparr>post := filter (owned_by userId) (post st)\<rparr>"

section \<open>What a tick selects\<close>

text \<open>
  The tasks the query of a tick returns at \<open>now\<close>; empty when the query fails.
\<close>

definition selected_index :: "services \<Rightarrow> DateTime \<Rightarrow> store \<Rightarrow> post_row list" where
  "selected_index sv now st =
     (case fst (select_due_index sv st (toFormat_padded (plus_time now 14 30))
                                       (toFormat_padded (plus_time now 15 30))) of
        Inl e \<Rightarrow> []
      | Inr rows \<Rightarrow> map fst rows)"

definition selected_pg :: "services \<Rightarrow> DateTime \<Rightarrow> store \<Rightarrow> post_row list" where
  "selected_pg sv now st =
     (case fst (select_due_pg sv st (toFormat_padded (plus_time now 14 30))
                                    (toFormat_padded (plus_time now 15 30))) of
        Inl e \<Rightarrow> []
      | Inr rows \<Rightarrow> map fst rows)"

definition selected_cron :: "services \<Rightarrow> DateTime \<Rightarrow> store \<Rightarrow> post_row list" where
  "selected_cron sv now st =
     (case fst (select_due_cron sv st (toFormat_plain (plus_time now 14 30))
                                      (toFormat_plain (plus_time now 15 30))) of
        Inl e \<Rightarrow> []
      | Inr rows \<Rightarrow> map fst rows)"

text \<open>
  \<open>isolated userId st out\<close>: every task row in the response belongs to \<open>userId\<close>, the rows
  of the other users are in the table as they were, and the accounts are untouched.
\<close>

definition isolated :: "nat \<Rightarrow> store \<Rightarrow> response \<times> store \<Rightarrow> bool" where
  "isolated userId st out =
     (list_all (owned_by userId) (rows_of (body (fst out)))
      \<and> filter (\<lambda>p. \<not> owned_by userId p) (post (snd out))
          = filter (\<lambda>p. \<not> owned_by userId p) (post st)
      \<and> logindata (snd out) = logindata st)"

section \<open>Sample data\<close>

text \<open>
  Two accounts, a transporter that accepts every message, a store that answers, and the
  instant 03/11/2026 10:00:00 AM on the wall clock of the job.
\<close>

definition asha :: logindata_row where
  "asha = \<lparr>l_id = 1, email = ''asha@example.in'', password = ''$2a$10$h'',
           firstname = ''Asha'', lastname = ''Rao''\<rparr>"

definition ravi :: logindata_row where
  "ravi = \<lparr>l_id = 2, email = ''ravi@example.in'', password = ''$2a$10$k'',
           firstname = ''Ravi'', lastname = ''Iyer''\<rparr>"

definition ten_am :: DateTime where
  "ten_am = 1793700000000"

definition quarter_to_one :: DateTime where
  "quarter_to_one = 1793709900000"

definition task_at :: "nat \<Rightarrow> nat option \<Rightarrow> string \<Rightarrow> post_row" where
  "task_at i owner at =
     \<lparr>p_id = i, user_id = owner, task = ''Pay rent'', type = ''Personal'',
      timeofentry = Some ''03/11/2026, 09:00:00 AM'', completestatus = Some False,
      remindertime = at, currentstatus = Some False\<rparr>"

definition table :: "post_row list \<Rightarrow> store" where
  "table ps = \<lparr>logindata = [asha, ravi], post = ps, post_id_seq = 100\<rparr>"

definition working :: services where
  "working = \<lparr>SMTP_EMAIL = ''noreply@example.in'', store_fault = None,
               sendMail = (\<lambda>m. None), timestamptz_in = to_timestamp,
               TO_TIMESTAMP = (\<lambda>s fmt. if fmt = sql_pattern then to_timestamp s else None),
               in_filter = (\<lambda>operand. None),
               jwt_verify = (\<lambda>token. if token = ''tok-asha'' then Some (1, ''asha@example.in'')
                                       else if token = ''tok-ravi'' then Some (2, ''ravi@example.in'')
                                       else None)\<rparr>"

definition quiet :: effects where
  "quiet = \<lparr>attempted = [], delivered = [], console = []\<rparr>"

text \<open>
  A store that rejects the query, a store that cannot be reached, a server whose date style
  does not read the two bounds, a transporter that rejects the mail to the first account, and
  a server whose \<open>in\<close> filter keeps every row. Three pending tasks due inside the window of
  10:00:00 AM (the last without an owner), one due on its upper bound, one completed, and
  one due at 12:59:30 PM, the upper bound of the window of 12:44:00 PM and the lower bound
  of the window of 12:45:00 PM.
\<close>

definition down :: services where
  "down = working\<lparr>store_fault := Some (QueryError ''fetch failed'')\<rparr>"

definition unreachable :: services where
  "unreachable = working\<lparr>store_fault := Some (ConnectionError ''connection terminated'')\<rparr>"

definition other_datestyle :: services where
  "other_datestyle = working\<lparr>timestamptz_in := (\<lambda>s. None)\<rparr>"

definition bouncing :: services where
  "bouncing = working\<lparr>sendMail := (\<lambda>m. if to_addr m = ''asha@example.in''
                                       then Some (SmtpError ''550 mailbox unavailable'')
                                       else None),
                       in_filter := (\<lambda>operand. Some (\<lambda>r. True))\<rparr>"

definition lenient :: services where
  "lenient = working\<lparr>in_filter := (\<lambda>operand. Some (\<lambda>r. True))\<rparr>"

definition rent :: post_row where
  "rent = task_at 1 (Some 1) ''03/11/2026, 10:15:00 AM''"

definition milk :: post_row where
  "milk = (task_at 2 (Some 2) ''03/11/2026, 10:15:10 AM'')\<lparr>task := ''Buy milk'', type := ''Family''\<rparr>"

definition orphan :: post_row where
  "orphan = task_at 3 None ''03/11/2026, 10:14:45 AM''"

definition edge :: post_row where
  "edge = task_at 4 (Some 1) ''03/11/2026, 10:15:30 AM''"

definition before_one :: post_row where
  "before_one = task_at 6 (Some 1) ''03/11/2026, 12:59:30 PM''"


definition finished :: post_row where
  "finished = (task_at 5 (Some 1) ''03/11/2026, 10:15:00 AM'')\<lparr>completestatus := Some True\<rparr>"

definition edge_mail :: mailOptions where
  "edge_mail =
     \<lparr>from_addr = ''noreply@example.in'', to_addr = ''asha@example.in'',
      subject = ''Upcoming Task Reminder'',
      text_body = reminder_text ''Asha'' ''Rao'' ''03/11/2026, 10:15:30 AM'' ''Personal''
                    ''Pay rent''\<rparr>"

definition authorized :: "string \<Rightarrow> request" where
  "authorized header =
     \<lparr>authorization = Some header, param_id = ''2'', b_task = Some ''Call home'',
      b_type = Some ''Family'', b_timeofentry = Some ''03/11/2026, 09:30:00 AM'',
      b_completestatus = Some True, b_remindertime = Some ''03/11/2026, 06:00:00 PM'',
      b_currentstatus = Some False, b_editedtask = Some ''Call home'',
      b_editedtype = Some ''Family''\<rparr>"

section \<open>Evaluation rules\<close>

lemma dec_small: "n < 10 \<Longrightarrow> dec n = [digit n]"
  by (simp add: dec.simps)

lemma dec_big: "10 \<le> n \<Longrightarrow> dec n = dec (n div 10) @ [digit n]"
  by (subst dec.simps) simp

lemmas calendar_defs =
  civil_from_days_def civil_of_doe_def civil_of_yoe_def civil_of_doy_def civil_of_mp_def
  civil_of_month_def days_from_civil_def days_of_year_def days_of_era_def

lemmas format_defs =
  toFormat_padded_def toFormat_plain_def toFormat_gen_def format_time_def padStart_def
  digit_def hour12_def meridiem_def dec_small dec_big plus_time_def

lemmas parse_defs =
  to_timestamp_def pattern_def take_digits_def timestamp_of_def days_in_month_def leap_def
  digit_val_def

text \<open>
  What \<open>to_timestamp\<close> reads and what it refuses: fields without padding and a lower-case
  meridiem are read, a date that is not in the calendar, an hour outside the 12-hour clock,
  other punctuation and trailing characters are not.
\<close>

lemma to_timestamp_reads:
  "to_timestamp ''3/11/2026, 1:00:00 pm'' = Some 1793710800"
  "to_timestamp ''29/02/2024, 10:15:00 AM'' = Some 1709201700"
  "to_timestamp ''03/11/2026, 12:00:00 AM'' = Some 1793664000"
  "to_timestamp ''03/11/2026, 12:00:00 PM'' = Some 1793707200"
  "to_timestamp ''31/11/2026, 10:15:00 AM'' = None"
  "to_timestamp ''29/02/2026, 10:15:00 AM'' = None"
  "to_timestamp ''03/11/2026, 13:00:00 PM'' = None"
  "to_timestamp ''03/11/2026, 00:30:00 AM'' = None"
  "to_timestamp ''03-11-2026 10:15:00 AM'' = None"
  "to_timestamp ''03/11/2026, 10:15:00 AM '' = None"
  by (simp_all add: parse_defs calendar_defs)

lemma toFormat_to_timestamp_sample:
  "to_timestamp (toFormat_padded 1709201700999) = Some 1709201700"
  by (simp add: format_defs parse_defs calendar_defs)

lemma window_ten_am:
  "toFormat_padded (plus_time ten_am 14 30) = ''03/11/2026, 10:14:30 AM''"
  "toFormat_padded (plus_time ten_am 15 30) = ''03/11/2026, 10:15:30 AM''"
  by (simp_all add: ten_am_def format_defs calendar_defs)

lemma window_quarter_to_one:
  "toFormat_padded (plus_time quarter_to_one 14 30) = ''03/11/2026, 12:59:30 PM''"
  "toFormat_padded (plus_time quarter_to_one 15 30) = ''03/11/2026, 01:00:30 PM''"
  by (simp_all add: quarter_to_one_def format_defs calendar_defs)

section \<open>The window of \<open>index.js\<close> is a comparison of texts\<close>

text \<open>
  C1. The claim: a tick selects exactly the pending tasks whose reminder time, parsed, lies
  in the closed interval from now + 14m30s to now + 15m30s. \<open>index.js\<close> hands the two
  formatted bounds to \<open>gte\<close> and \<open>lte\<close> on the text column, so the store compares texts.
  At 10:00:00 AM the window is 10:14:30 AM to 10:15:30 AM; a task due at 10:15:00 PM, twelve
  hours outside it, is selected and its owner is mailed. At 12:45:00 PM the lower bound
  12:59:30 PM is above the upper bound 01:00:30 PM as a text, and a task due at 01:00:00 PM,
  inside the window, is not selected.
\<close>

theorem index_window_compares_text:
  "to_timestamp ''03/11/2026, 10:15:00 PM'' = Some 1793744100
   \<and> plus_time ten_am 15 30 div 1000 = 1793700930
   \<and> selected_index working ten_am (table [task_at 7 (Some 1) ''03/11/2026, 10:15:00 PM''])
       = [task_at 7 (Some 1) ''03/11/2026, 10:15:00 PM'']
   \<and> map to_addr (delivered (snd (snd (checkAndSendReminders_index working ten_am
         (table [task_at 7 (Some 1) ''03/11/2026, 10:15:00 PM'']) quiet)))) = [''asha@example.in'']
   \<and> to_timestamp ''03/11/2026, 01:00:00 PM'' = Some 1793710800
   \<and> plus_time quarter_to_one 14 30 div 1000 = 1793710770
   \<and> plus_time quarter_to_one 15 30 div 1000 = 1793710830
   \<and> selected_index working quarter_to_one
         (table [task_at 8 (Some 1) ''03/11/2026, 01:00:00 PM'']) = []"
proof -
  have a: "to_timestamp ''03/11/2026, 10:15:00 PM'' = Some 1793744100"
    by (simp add: parse_defs calendar_defs)
  have b: "plus_time ten_am 15 30 div 1000 = 1793700930"
    by (simp add: plus_time_def ten_am_def)
  have c: "selected_index working ten_am (table [task_at 7 (Some 1) ''03/11/2026, 10:15:00 PM''])
             = [task_at 7 (Some 1) ''03/11/2026, 10:15:00 PM'']"
    by (simp add: selected_index_def window_ten_am select_due_index_def working_def table_def
        task_at_def embed_logindata_def)
  have d: "map to_addr (delivered (snd (snd (checkAndSendReminders_index working ten_am
         (table [task_at 7 (Some 1) ''03/11/2026, 10:15:00 PM'']) quiet)))) = [''asha@example.in'']"
    by (simp add: checkAndSendReminders_index_def try_index_def window_ten_am
        select_due_index_def working_def table_def task_at_def embed_logindata_def
        mailOptions_index_def asha_def ravi_def quiet_def)
  have e: "to_timestamp ''03/11/2026, 01:00:00 PM'' = Some 1793710800"
    by (simp add: parse_defs calendar_defs)
  have f: "plus_time quarter_to_one 14 30 div 1000 = 1793710770"
    "plus_time quarter_to_one 15 30 div 1000 = 1793710830"
    by (simp_all add: plus_time_def quarter_to_one_def)
  have g: "selected_index working quarter_to_one
         (table [task_at 8 (Some 1) ''03/11/2026, 01:00:00 PM'']) = []"
    by (simp add: selected_index_def window_quarter_to_one select_due_index_def working_def
        table_def task_at_def)
  from a b c d e f g show ?thesis by blast
qed

text \<open>
  The first version, for comparison: when its query succeeds, the tasks it returns are
  exactly the pending tasks with an owner whose reminder time, as \<open>TO_TIMESTAMP\<close> reads it,
  lies between the two bounds, both included.
\<close>

lemma set_joined:
  "set (joined st) = {(p, l). p \<in> set (post st) \<and> l \<in> set (logindata st) \<and> user_id p = Some (l_id l)}"
  by (auto simp: joined_def)

lemma set_selected_pg:
  assumes "select_due_pg sv st lower upper = (Inr rows, st')"
    and "timestamptz_in sv lower = Some lo" and "timestamptz_in sv upper = Some hi"
  shows "set (map fst rows) =
           {p \<in> set (post st). completestatus p = Some False
              \<and> (\<exists>l \<in> set (logindata st). user_id p = Some (l_id l))
              \<and> (\<exists>t. TO_TIMESTAMP sv (remindertime p) sql_pattern = Some t \<and> lo \<le> t \<and> t \<le> hi)}"
proof -
  from assms have rows:
    "rows = filter (between sv lo hi)
              (filter (\<lambda>row. completestatus (fst row) = Some False) (joined st))"
    by (auto simp: select_due_pg_def split: option.splits if_splits)
  show ?thesis
    unfolding rows
    by (auto simp: set_joined between_def image_iff split: option.splits)
qed

text \<open>
  In the first version a pending task without owner whose reminder text cannot be read
  fails the query, although the join would have dropped the task.
\<close>

lemma unreadable_text_fails_pg_query:
  "fst (select_due_pg working (table [task_at 9 None ''soon''])
          ''03/11/2026, 10:14:30 AM'' ''03/11/2026, 10:15:30 AM'')
     = Inl (QueryError ''invalid value for to_timestamp'')"
  by (simp add: select_due_pg_def working_def table_def task_at_def sql_pattern_def
      parse_defs calendar_defs)

lemmas sample_defs =
  working_def down_def unreachable_def other_datestyle_def bouncing_def lenient_def table_def
  task_at_def rent_def milk_def orphan_def edge_def before_one_def finished_def asha_def
  ravi_def quiet_def

section \<open>Completed tasks\<close>

lemma not_selected_index: "completestatus p = Some True \<Longrightarrow> p \<notin> set (selected_index sv now st)"
  by (auto simp: selected_index_def select_due_index_def embed_logindata_def split: option.splits)

lemma not_selected_pg: "completestatus p = Some True \<Longrightarrow> p \<notin> set (selected_pg sv now st)"
  by (auto simp: selected_pg_def select_due_pg_def Let_def split: option.splits)

lemma not_selected_cron: "completestatus p = Some True \<Longrightarrow> p \<notin> set (selected_cron sv now st)"
  by (auto simp: selected_cron_def select_due_cron_def embed_logindata_def split: option.splits)

text \<open>
  C5. A task whose completion flag is true is in the result of no tick's query, whatever
  its reminder time, the instant of the tick, the store and the services: in all three
  versions the query asks for \<open>completestatus = false\<close>.
\<close>

theorem completed_never_selected:
  "completestatus p = Some True \<Longrightarrow>
     p \<notin> set (selected_index sv now st) \<and> p \<notin> set (selected_pg sv now st)
     \<and> p \<notin> set (selected_cron sv now st)"
  by (simp add: not_selected_index not_selected_pg not_selected_cron)

lemma selected_index_sample:
  "selected_index working ten_am (table [rent, finished, milk]) = [rent, milk]"
  by (simp add: selected_index_def window_ten_am select_due_index_def embed_logindata_def
      sample_defs)

text \<open>
  The completed task has the reminder time of a selected one and is left out.
\<close>

theorem completed_never_selected_witness:
  "completestatus finished = Some True
   \<and> remindertime finished = remindertime rent
   \<and> selected_index working ten_am (table [rent, finished, milk]) = [rent, milk]
   \<and> finished \<notin> set (selected_index working ten_am (table [rent, finished, milk]))
   \<and> finished \<notin> set (selected_pg working ten_am (table [rent, finished, milk]))
   \<and> finished \<notin> set (selected_cron lenient ten_am (table [rent, finished, milk]))"
proof -
  have h: "completestatus finished = Some True"
    by (simp add: finished_def task_at_def)
  have r: "remindertime finished = remindertime rent"
    by (simp add: finished_def rent_def task_at_def)
  from completed_never_selected [OF h] h r selected_index_sample show ?thesis
    by blast
qed

section \<open>A tick with nothing due\<close>

text \<open>
  C7. When the query of a tick of \<open>index.js\<close> returns no row, the tick returns normally and
  changes neither the store nor the effects: no message is handed to the transporter.
\<close>

theorem tick_without_matches:
  "fst (select_due_index sv st (toFormat_padded (plus_time now 14 30))
                               (toFormat_padded (plus_time now 15 30))) = Inr [] \<Longrightarrow>
     checkAndSendReminders_index sv now st fx = (Returned, st, fx)"
  by (auto simp: checkAndSendReminders_index_def try_index_def select_due_index_def
      split: option.splits prod.splits sum.splits)

text \<open>The same in the other two versions; the cron version writes two console lines.\<close>

lemma tick_without_matches_pg:
  "fst (select_due_pg sv st (toFormat_padded (plus_time now 14 30))
                               (toFormat_padded (plus_time now 15 30))) = Inr [] \<Longrightarrow>
     checkAndSendReminders_pg sv now st fx = (Returned, st, fx)"
  by (auto simp: checkAndSendReminders_pg_def try_pg_def select_due_pg_def Let_def
      split: option.splits prod.splits sum.splits if_splits)

lemma tick_without_matches_cron:
  "fst (select_due_cron sv st (toFormat_plain (plus_time now 14 30))
                               (toFormat_plain (plus_time now 15 30))) = Inr [] \<Longrightarrow>
     checkAndSendReminders_cron sv now st fx =
       (Returned, st, fx\<lparr>console := console fx @
           [Checking_window (toFormat_plain (plus_time now 14 30)) (toFormat_plain (plus_time now 15 30)),
            No_tasks_found (toFormat_plain (plus_time now 14 30)) (toFormat_plain (plus_time now 15 30))]\<rparr>)"
  by (auto simp: checkAndSendReminders_cron_def try_cron_def select_due_cron_def Let_def
      split: option.splits prod.splits sum.splits if_splits)

text \<open>A table whose only task is completed: the query is empty and the tick does nothing.\<close>

theorem tick_without_matches_witness:
  "fst (select_due_index working (table [finished]) (toFormat_padded (plus_time ten_am 14 30))
                               (toFormat_padded (plus_time ten_am 15 30))) = Inr []
   \<and> checkAndSendReminders_index working ten_am (table [finished]) quiet
       = (Returned, table [finished], quiet)
   \<and> attempted quiet = []"
proof -
  have h: "fst (select_due_index working (table [finished]) (toFormat_padded (plus_time ten_am 14 30))
                               (toFormat_padded (plus_time ten_am 15 30))) = Inr []"
    by (simp add: select_due_index_def sample_defs)
  from tick_without_matches [OF h] h show ?thesis
    by (simp add: quiet_def)
qed

section \<open>A tick writes nothing to the store\<close>


lemma tick_store_pg: "fst (snd (checkAndSendReminders_pg sv now st fx)) = st"
  by (auto simp: checkAndSendReminders_pg_def try_pg_def select_due_pg_def
      split: option.splits prod.splits sum.splits)

lemma tick_store_cron: "fst (snd (checkAndSendReminders_cron sv now st fx)) = st"
  by (auto simp: checkAndSendReminders_cron_def try_cron_def select_due_cron_def Let_def
      split: option.splits prod.splits sum.splits)

text \<open>
  What the query of \<open>index.js\<close> selects from a store that answers: the pending tasks whose
  reminder text lies between the two bound texts.
\<close>

lemma set_selected_index:
  "store_fault sv = None \<Longrightarrow>
     set (selected_index sv now st) =
       {p \<in> set (post st). completestatus p = Some False
          \<and> text_le (toFormat_padded (plus_time now 14 30)) (remindertime p)
          \<and> text_le (remindertime p) (toFormat_padded (plus_time now 15 30))}"
  by (auto simp: selected_index_def select_due_index_def embed_logindata_def image_iff)





lemma window_one_past_ten:
  "toFormat_padded (plus_time (ten_am + 60000) 14 30) = ''03/11/2026, 10:15:30 AM''"
  "toFormat_padded (plus_time (ten_am + 60000) 15 30) = ''03/11/2026, 10:16:30 AM''"
  by (simp_all add: ten_am_def format_defs calendar_defs)


lemma edge_second_tick:
  "checkAndSendReminders_index working (ten_am + 60000) (table [edge]) fx
     = (Returned, table [edge],
        fx\<lparr>attempted := attempted fx @ [edge_mail], delivered := delivered fx @ [edge_mail]\<rparr>)"
  by (simp add: checkAndSendReminders_index_def try_index_def window_one_past_ten
      select_due_index_def embed_logindata_def mailOptions_index_def sample_defs edge_mail_def)


section \<open>A failing store query\<close>

lemma CronJob_index_returns: "fst (CronJob_index ticks st fx) = Returned"
proof (induction ticks arbitrary: st fx)
  case Nil
  then show ?case by simp
next
  case (Cons t ticks)
  obtain sv now where t: "t = (sv, now)" by (cases t)
  obtain c st' fx' where r: "checkAndSendReminders_index sv now st fx = (c, st', fx')"
    by (cases "checkAndSendReminders_index sv now st fx")
  have "c = Returned" using r
    by (auto simp: checkAndSendReminders_index_def split: prod.splits option.splits)
  with Cons.IH r t show ?case by simp
qed

lemma CronJob_cron_returns: "fst (CronJob_cron ticks st fx) = Returned"
proof (induction ticks arbitrary: st fx)
  case Nil
  then show ?case by simp
next
  case (Cons t ticks)
  obtain sv now where t: "t = (sv, now)" by (cases t)
  obtain c st' fx' where r:
    "checkAndSendReminders_cron sv now st (fx\<lparr>console := console fx @ [Cron_job_triggered]\<rparr>)
       = (c, st', fx')"
    by (cases "checkAndSendReminders_cron sv now st
                 (fx\<lparr>console := console fx @ [Cron_job_triggered]\<rparr>)")
  have "c = Returned" using r
    by (auto simp: checkAndSendReminders_cron_def split: prod.splits option.splits)
  with Cons.IH r t show ?case by simp
qed

lemma failed_query_index:
  "fst (select_due_index sv st (toFormat_padded (plus_time now 14 30))
                               (toFormat_padded (plus_time now 15 30))) = Inl e \<Longrightarrow>
     checkAndSendReminders_index sv now st fx = (Returned, st, fx)"
  by (auto simp: checkAndSendReminders_index_def try_index_def select_due_index_def
      split: option.splits prod.splits sum.splits)

lemma failed_query_pg:
  "fst (select_due_pg sv st (toFormat_padded (plus_time now 14 30))
                            (toFormat_padded (plus_time now 15 30))) = Inl e \<Longrightarrow>
     checkAndSendReminders_pg sv now st fx =
       (Returned, st, fx\<lparr>console := console fx @ [Error_in_check e]\<rparr>)"
  by (auto simp: checkAndSendReminders_pg_def try_pg_def select_due_pg_def
      split: option.splits prod.splits sum.splits if_splits)

lemma failed_query_cron:
  "fst (select_due_cron sv st (toFormat_plain (plus_time now 14 30))
                              (toFormat_plain (plus_time now 15 30))) = Inl e \<Longrightarrow>
     checkAndSendReminders_cron sv now st fx =
       (Returned, st,
        fx\<lparr>console := console fx @
              [Checking_window (toFormat_plain (plus_time now 14 30))
                               (toFormat_plain (plus_time now 15 30)),
               Supabase_query_error e, Error_in_check e]\<rparr>)"
  by (auto simp: checkAndSendReminders_cron_def try_cron_def select_due_cron_def Let_def
      split: option.splits prod.splits sum.splits if_splits)

lemma CronJob_pg_step:
  "\<not> connection_lost sv \<Longrightarrow>
     CronJob_pg ((sv, now) # ticks) st fx =
       (case checkAndSendReminders_pg sv now st fx of
          (Threw e, st', fx') \<Rightarrow> (Threw e, st', fx')
        | (Returned, st', fx') \<Rightarrow> CronJob_pg ticks st' fx')"
  by (auto simp: connection_lost_def split: option.splits error.splits)

text \<open>
  C4, as amended. In \<open>index.js\<close> and in the cron version, whenever the query of a tick
  fails, and in the first version whenever it fails while the store can be reached: the
  error is caught, the tick returns normally, the store is unchanged and no message is
  dispatched; the first version and the cron version write the error to the console,
  \<open>index.js\<close> leaves no trace of it (its handler is empty); and the job goes on with the
  following ticks exactly as if the failed tick had not run. The jobs of \<open>index.js\<close> and of
  the cron version never end by an exception.
\<close>

theorem failed_query_aborts_only_its_tick:
  "(fst (select_due_index sv st (toFormat_padded (plus_time now 14 30))
                                (toFormat_padded (plus_time now 15 30))) = Inl e \<longrightarrow>
      checkAndSendReminders_index sv now st fx = (Returned, st, fx)
      \<and> CronJob_index ((sv, now) # ticks) st fx = CronJob_index ticks st fx)
   \<and> (fst (select_due_cron sv st (toFormat_plain (plus_time now 14 30))
                                  (toFormat_plain (plus_time now 15 30))) = Inl e \<longrightarrow>
      checkAndSendReminders_cron sv now st fx
        = (Returned, st,
           fx\<lparr>console := console fx @
                 [Checking_window (toFormat_plain (plus_time now 14 30))
                                  (toFormat_plain (plus_time now 15 30)),
                  Supabase_query_error e, Error_in_check e]\<rparr>)
      \<and> CronJob_cron ((sv, now) # ticks) st fx
          = CronJob_cron ticks st
              (fx\<lparr>console := console fx @
                    [Cron_job_triggered,
                     Checking_window (toFormat_plain (plus_time now 14 30))
                                     (toFormat_plain (plus_time now 15 30)),
                     Supabase_query_error e, Error_in_check e]\<rparr>))
   \<and> (fst (select_due_pg sv st (toFormat_padded (plus_time now 14 30))
                                (toFormat_padded (plus_time now 15 30))) = Inl e
       \<and> \<not> connection_lost sv \<longrightarrow>
      checkAndSendReminders_pg sv now st fx
        = (Returned, st, fx\<lparr>console := console fx @ [Error_in_check e]\<rparr>)
      \<and> CronJob_pg ((sv, now) # ticks) st fx
          = CronJob_pg ticks st (fx\<lparr>console := console fx @ [Error_in_check e]\<rparr>))
   \<and> fst (CronJob_index ticks st fx) = Returned
   \<and> fst (CronJob_cron ticks st fx) = Returned"
proof -
  have i: "fst (select_due_index sv st (toFormat_padded (plus_time now 14 30))
                                (toFormat_padded (plus_time now 15 30))) = Inl e \<Longrightarrow>
      checkAndSendReminders_index sv now st fx = (Returned, st, fx)
      \<and> CronJob_index ((sv, now) # ticks) st fx = CronJob_index ticks st fx"
    by (simp add: failed_query_index)
  have c: "fst (select_due_cron sv st (toFormat_plain (plus_time now 14 30))
                                  (toFormat_plain (plus_time now 15 30))) = Inl e \<Longrightarrow>
      checkAndSendReminders_cron sv now st fx
        = (Returned, st,
           fx\<lparr>console := console fx @
                 [Checking_window (toFormat_plain (plus_time now 14 30))
                                  (toFormat_plain (plus_time now 15 30)),
                  Supabase_query_error e, Error_in_check e]\<rparr>)
      \<and> CronJob_cron ((sv, now) # ticks) st fx
          = CronJob_cron ticks st
              (fx\<lparr>console := console fx @
                    [Cron_job_triggered,
                     Checking_window (toFormat_plain (plus_time now 14 30))
                                     (toFormat_plain (plus_time now 15 30)),
                     Supabase_query_error e, Error_in_check e]\<rparr>)"
    by (simp add: failed_query_cron)
  have p: "fst (select_due_pg sv st (toFormat_padded (plus_time now 14 30))
                                (toFormat_padded (plus_time now 15 30))) = Inl e
       \<and> \<not> connection_lost sv \<Longrightarrow>
      checkAndSendReminders_pg sv now st fx
        = (Returned, st, fx\<lparr>console := console fx @ [Error_in_check e]\<rparr>)
      \<and> CronJob_pg ((sv, now) # ticks) st fx
          = CronJob_pg ticks st (fx\<lparr>console := console fx @ [Error_in_check e]\<rparr>)"
    by (simp add: failed_query_pg CronJob_pg_step del: CronJob_pg.simps)
  from i c p CronJob_index_returns [of ticks st fx] CronJob_cron_returns [of ticks st fx]
  show ?thesis by blast
qed

text \<open>
  C4 as stated also says that the error is logged. In \<open>index.js\<close> the console stays empty
  after a tick whose query failed.
\<close>

theorem index_failed_query_leaves_no_log:
  "store_fault down = Some (QueryError ''fetch failed'')
   \<and> console (snd (snd (checkAndSendReminders_index down ten_am (table [rent]) quiet))) = []"
  by (simp add: checkAndSendReminders_index_def try_index_def select_due_index_def sample_defs)

text \<open>
  What the amended statement leaves out: in the first version a store that cannot be reached
  ends the process, and no later tick runs.
\<close>

lemma lost_connection_ends_pg_job:
  "store_fault sv = Some (ConnectionError msg) \<Longrightarrow>
     CronJob_pg ((sv, now) # ticks) st fx = (Threw (ConnectionError msg), st, fx)"
  by simp

lemma lost_connection_sample:
  "CronJob_pg [(unreachable, ten_am), (working, ten_am + 60000)] (table [edge]) quiet
     = (Threw (ConnectionError ''connection terminated''), table [edge], quiet)"
  by (simp add: unreachable_def working_def)

lemma CronJob_cron_single:
  "snd (snd (CronJob_cron [(sv, now)] st fx))
     = snd (snd (checkAndSendReminders_cron sv now st
                   (fx\<lparr>console := console fx @ [Cron_job_triggered]\<rparr>)))"
  by (auto simp: checkAndSendReminders_cron_def split: prod.splits option.splits)

lemma window_one_past_ten_plain:
  "toFormat_plain (plus_time (ten_am + 60000) 14 30) = ''3/11/2026, 10:15:30 AM''"
  "toFormat_plain (plus_time (ten_am + 60000) 15 30) = ''3/11/2026, 10:16:30 AM''"
  by (simp_all add: ten_am_def format_defs calendar_defs)

lemma bounds_one_past_ten:
  "to_timestamp ''03/11/2026, 10:15:30 AM'' = Some 1793700930"
  "to_timestamp ''03/11/2026, 10:16:30 AM'' = Some 1793700990"
  by (simp_all add: parse_defs calendar_defs)

lemma edge_second_tick_pg:
  "checkAndSendReminders_pg working (ten_am + 60000) (table [edge]) fx
     = (Returned, table [edge],
        fx\<lparr>attempted := attempted fx @ [edge_mail], delivered := delivered fx @ [edge_mail],
            console := console fx @ [Tasks_found 1, Email_sent ''asha@example.in'']\<rparr>)"
  by (simp add: checkAndSendReminders_pg_def try_pg_def select_due_pg_def joined_def
      between_def window_one_past_ten bounds_one_past_ten mailOptions_pg_def sample_defs
      edge_mail_def sql_pattern_def)

lemma edge_second_tick_cron:
  "map to_addr (delivered (snd (snd (checkAndSendReminders_cron lenient (ten_am + 60000)
                                       (table [edge]) fx))))
     = map to_addr (delivered fx) @ [''asha@example.in'']"
  by (simp add: checkAndSendReminders_cron_def try_cron_def select_due_cron_def Let_def
      embed_logindata_def mailOptions_cron_def sample_defs)

text \<open>
  At 10:00 the query fails: in \<open>index.js\<close> because the store rejects it, in the cron version
  because the server rejects the filter, in the first version because the server does not
  read the two bounds. At 10:01 the store answers, and the tick mails the owner of the task
  due at 10:15:30 AM.
\<close>

theorem failed_query_aborts_only_its_tick_witness:
  "fst (select_due_index down (table [edge]) (toFormat_padded (plus_time ten_am 14 30))
          (toFormat_padded (plus_time ten_am 15 30))) = Inl (QueryError ''fetch failed'')
   \<and> CronJob_index [(down, ten_am), (working, ten_am + 60000)] (table [edge]) quiet
       = (Returned, table [edge], quiet\<lparr>attempted := [edge_mail], delivered := [edge_mail]\<rparr>)
   \<and> fst (select_due_cron working (table [edge]) (toFormat_plain (plus_time ten_am 14 30))
            (toFormat_plain (plus_time ten_am 15 30))) = Inl (QueryError ''failed to parse filter'')
   \<and> map to_addr (delivered (snd (snd (CronJob_cron [(working, ten_am), (lenient, ten_am + 60000)]
                                          (table [edge]) quiet)))) = [''asha@example.in'']
   \<and> fst (select_due_pg other_datestyle (table [edge]) (toFormat_padded (plus_time ten_am 14 30))
            (toFormat_padded (plus_time ten_am 15 30)))
       = Inl (QueryError ''invalid input syntax for type timestamp'')
   \<and> \<not> connection_lost other_datestyle
   \<and> CronJob_pg [(other_datestyle, ten_am), (working, ten_am + 60000)] (table [edge]) quiet
       = (Returned, table [edge],
          quiet\<lparr>attempted := [edge_mail], delivered := [edge_mail],
                console := [Error_in_check (QueryError ''invalid input syntax for type timestamp''),
                            Tasks_found 1, Email_sent ''asha@example.in'']\<rparr>)"
proof -
  have hi: "fst (select_due_index down (table [edge]) (toFormat_padded (plus_time ten_am 14 30))
          (toFormat_padded (plus_time ten_am 15 30))) = Inl (QueryError ''fetch failed'')"
    by (simp add: select_due_index_def down_def working_def)
  have hc: "fst (select_due_cron working (table [edge]) (toFormat_plain (plus_time ten_am 14 30))
            (toFormat_plain (plus_time ten_am 15 30))) = Inl (QueryError ''failed to parse filter'')"
    by (simp add: select_due_cron_def working_def)
  have hp: "fst (select_due_pg other_datestyle (table [edge]) (toFormat_padded (plus_time ten_am 14 30))
            (toFormat_padded (plus_time ten_am 15 30)))
       = Inl (QueryError ''invalid input syntax for type timestamp'')"
    by (simp add: select_due_pg_def other_datestyle_def working_def)
  have hl: "\<not> connection_lost other_datestyle"
    by (simp add: connection_lost_def other_datestyle_def working_def)
  have working_up: "\<not> connection_lost working"
    by (simp add: connection_lost_def working_def)
  note t = failed_query_aborts_only_its_tick
  from t [of down "table [edge]" ten_am "QueryError ''fetch failed''" quiet
            "[(working, ten_am + 60000)]"] hi
  have ji: "CronJob_index [(down, ten_am), (working, ten_am + 60000)] (table [edge]) quiet
              = CronJob_index [(working, ten_am + 60000)] (table [edge]) quiet"
    by blast
  from t [of working "table [edge]" ten_am "QueryError ''failed to parse filter''" quiet
            "[(lenient, ten_am + 60000)]"] hc
  have jc: "CronJob_cron [(working, ten_am), (lenient, ten_am + 60000)] (table [edge]) quiet
              = CronJob_cron [(lenient, ten_am + 60000)] (table [edge])
                  (quiet\<lparr>console := console quiet @
                     [Cron_job_triggered,
                      Checking_window (toFormat_plain (plus_time ten_am 14 30))
                                      (toFormat_plain (plus_time ten_am 15 30)),
                      Supabase_query_error (QueryError ''failed to parse filter''),
                      Error_in_check (QueryError ''failed to parse filter'')]\<rparr>)"
    by blast
  from t [of other_datestyle "table [edge]" ten_am
            "QueryError ''invalid input syntax for type timestamp''" quiet
            "[(working, ten_am + 60000)]"] hp hl
  have jp: "CronJob_pg [(other_datestyle, ten_am), (working, ten_am + 60000)] (table [edge]) quiet
              = CronJob_pg [(working, ten_am + 60000)] (table [edge])
                  (quiet\<lparr>console := console quiet @
                     [Error_in_check (QueryError ''invalid input syntax for type timestamp'')]\<rparr>)"
    by blast
  have ri: "CronJob_index [(down, ten_am), (working, ten_am + 60000)] (table [edge]) quiet
       = (Returned, table [edge], quiet\<lparr>attempted := [edge_mail], delivered := [edge_mail]\<rparr>)"
    unfolding ji by (simp add: edge_second_tick quiet_def)
  have rc: "map to_addr (delivered (snd (snd (CronJob_cron [(working, ten_am), (lenient, ten_am + 60000)]
                                          (table [edge]) quiet)))) = [''asha@example.in'']"
    unfolding jc CronJob_cron_single by (simp add: edge_second_tick_cron quiet_def)
  have rp: "CronJob_pg [(other_datestyle, ten_am), (working, ten_am + 60000)] (table [edge]) quiet
       = (Returned, table [edge],
          quiet\<lparr>attempted := [edge_mail], delivered := [edge_mail],
                console := [Error_in_check (QueryError ''invalid input syntax for type timestamp''),
                            Tasks_found 1, Email_sent ''asha@example.in'']\<rparr>)"
    unfolding jp
    by (simp add: CronJob_pg_step [OF working_up] edge_second_tick_pg quiet_def
        del: CronJob_pg.simps(2))
  from hi hc hp hl ri rc rp show ?thesis by blast
qed

section \<open>The notification message\<close>

text \<open>
  C8. For a matched task whose owner is resolved, the message of \<open>index.js\<close> and of the
  first version goes to the owner's email address, has the fixed subject
  \<open>Upcoming Task Reminder\<close>, and its body is the fixed wording around the owner's first and
  last name, the reminder time exactly as the text stored on the task, the category and the
  description.
\<close>

theorem reminder_message_fields:
  "snd row = Some l \<Longrightarrow>
     mailOptions_index sv row =
       Inr \<lparr>from_addr = SMTP_EMAIL sv, to_addr = email l, subject = ''Upcoming Task Reminder'',
            text_body = ''Dear '' @ firstname l @ '' '' @ lastname l @ '','' @ nl @ nl
              @ ''This is a reminder for your task which is scheduled at ''
              @ remindertime (fst row) @ nl
              @ '' Type: '' @ type (fst row) @ nl
              @ '' Task: '' @ task (fst row) @ ''.'' @ nl
              @ '' Please complete it soon!'' @ nl @ nl
              @ ''Best regards,'' @ nl @ ''Daily task Tracker '' @ heart\<rparr>
     \<and> mailOptions_pg sv (fst row, l) =
       \<lparr>from_addr = SMTP_EMAIL sv, to_addr = email l, subject = ''Upcoming Task Reminder'',
            text_body = ''Dear '' @ firstname l @ '' '' @ lastname l @ '','' @ nl @ nl
              @ ''This is a reminder for your task which is scheduled at ''
              @ remindertime (fst row) @ nl
              @ '' Type: '' @ type (fst row) @ nl
              @ '' Task: '' @ task (fst row) @ ''.'' @ nl
              @ '' Please complete it soon!'' @ nl @ nl
              @ ''Best regards,'' @ nl @ ''Daily task Tracker '' @ heart\<rparr>"
  by (simp add: mailOptions_index_def mailOptions_pg_def reminder_text_def)

text \<open>
  Every message the loop of \<open>index.js\<close> hands to the transporter is the message built from
  one of the rows, in their order, up to the row at which the loop ended.
\<close>

lemma for_rows_index_attempted:
  "\<exists>k \<le> length rows.
     map Inr (attempted (snd (for_rows_index sv rows fx)))
       = map Inr (attempted fx) @ map (mailOptions_index sv) (take k rows)"
proof (induction rows arbitrary: fx)
  case Nil
  then show ?case by simp
next
  case (Cons row rows)
  show ?case
  proof (cases "mailOptions_index sv row")
    case (Inl e)
    then have "map Inr (attempted (snd (for_rows_index sv (row # rows) fx)))
       = map Inr (attempted fx) @ map (mailOptions_index sv) (take 0 (row # rows))"
      by simp
    then show ?thesis by blast
  next
    case (Inr m)
    show ?thesis
    proof (cases "sendMail sv m")
      case None
      from Cons.IH [of "fx\<lparr>attempted := attempted fx @ [m], delivered := delivered fx @ [m]\<rparr>"]
      obtain k where k: "k \<le> length rows"
        "map Inr (attempted (snd (for_rows_index sv rows
            (fx\<lparr>attempted := attempted fx @ [m], delivered := delivered fx @ [m]\<rparr>))))
         = map Inr (attempted (fx\<lparr>attempted := attempted fx @ [m], delivered := delivered fx @ [m]\<rparr>))
           @ map (mailOptions_index sv) (take k rows)"
        by blast
      have "Suc k \<le> length (row # rows)" using k by simp
      moreover have "map Inr (attempted (snd (for_rows_index sv (row # rows) fx)))
         = map Inr (attempted fx) @ map (mailOptions_index sv) (take (Suc k) (row # rows))"
        using k Inr None by simp
      ultimately show ?thesis by blast
    next
      case (Some e)
      have "Suc 0 \<le> length (row # rows)" by simp
      moreover have "map Inr (attempted (snd (for_rows_index sv (row # rows) fx)))
         = map Inr (attempted fx) @ map (mailOptions_index sv) (take (Suc 0) (row # rows))"
        using Inr Some by simp
      ultimately show ?thesis by blast
    qed
  qed
qed

text \<open>The message for the second sample task.\<close>

theorem reminder_message_fields_witness:
  "snd (milk, Some ravi) = Some ravi
   \<and> mailOptions_index working (milk, Some ravi) =
       Inr \<lparr>from_addr = ''noreply@example.in'', to_addr = ''ravi@example.in'',
            subject = ''Upcoming Task Reminder'',
            text_body = ''Dear Ravi Iyer,'' @ nl @ nl
              @ ''This is a reminder for your task which is scheduled at 03/11/2026, 10:15:10 AM'' @ nl
              @ '' Type: Family'' @ nl
              @ '' Task: Buy milk.'' @ nl
              @ '' Please complete it soon!'' @ nl @ nl
              @ ''Best regards,'' @ nl @ ''Daily task Tracker '' @ heart\<rparr>"
  using reminder_message_fields [of "(milk, Some ravi)" ravi working]
  by (simp add: sample_defs)

section \<open>Failures inside the loop\<close>

lemmas tick_defs =
  checkAndSendReminders_index_def try_index_def select_due_index_def
  checkAndSendReminders_cron_def try_cron_def select_due_cron_def
  checkAndSendReminders_pg_def try_pg_def select_due_pg_def joined_def between_def
  embed_logindata_def mailOptions_index_def mailOptions_cron_def mailOptions_pg_def

lemma window_ten_am_plain:
  "toFormat_plain (plus_time ten_am 14 30) = ''3/11/2026, 10:14:30 AM''"
  "toFormat_plain (plus_time ten_am 15 30) = ''3/11/2026, 10:15:30 AM''"
  by (simp_all add: ten_am_def format_defs calendar_defs)

lemma bounds_ten_am:
  "to_timestamp ''03/11/2026, 10:14:30 AM'' = Some 1793700870"
  "to_timestamp ''03/11/2026, 10:15:30 AM'' = Some 1793700930"
  by (simp_all add: parse_defs calendar_defs)

lemma sample_times:
  "to_timestamp ''03/11/2026, 10:15:00 AM'' = Some 1793700900"
  "to_timestamp ''03/11/2026, 10:15:10 AM'' = Some 1793700910"
  "to_timestamp ''03/11/2026, 10:14:45 AM'' = Some 1793700885"
  by (simp_all add: parse_defs calendar_defs)

text \<open>
  C2. The claim: a failed send for one matched task is caught and logged, and every other
  matched task of the tick is still attempted. Two tasks are due, the transporter rejects
  the mail to the owner of the first. \<open>index.js\<close> has no \<open>try\<close> around the send: the exception
  leaves the loop, the second task is never attempted, nothing is delivered and nothing is
  written to the console. The cron version, with the send in a \<open>try\<close> of its own, attempts
  both and delivers the second.
\<close>

theorem index_stops_at_first_failed_send:
  "selected_index bouncing ten_am (table [rent, milk]) = [rent, milk]
   \<and> map to_addr (attempted (snd (snd (checkAndSendReminders_index bouncing ten_am
                                          (table [rent, milk]) quiet)))) = [''asha@example.in'']
   \<and> delivered (snd (snd (checkAndSendReminders_index bouncing ten_am
                             (table [rent, milk]) quiet))) = []
   \<and> console (snd (snd (checkAndSendReminders_index bouncing ten_am
                           (table [rent, milk]) quiet))) = []
   \<and> map to_addr (attempted (snd (snd (checkAndSendReminders_cron bouncing ten_am
                                          (table [rent, milk]) quiet))))
       = [''asha@example.in'', ''ravi@example.in'']
   \<and> map to_addr (delivered (snd (snd (checkAndSendReminders_cron bouncing ten_am
                                          (table [rent, milk]) quiet)))) = [''ravi@example.in'']"
proof -
  have a: "selected_index bouncing ten_am (table [rent, milk]) = [rent, milk]"
    by (simp add: selected_index_def window_ten_am select_due_index_def embed_logindata_def
        sample_defs)
  have c: "checkAndSendReminders_index bouncing ten_am (table [rent, milk]) quiet
     = (Returned, table [rent, milk],
        quiet\<lparr>attempted := [edge_mail\<lparr>text_body := reminder_text ''Asha'' ''Rao''
                  ''03/11/2026, 10:15:00 AM'' ''Personal'' ''Pay rent''\<rparr>]\<rparr>)"
    by (simp add: tick_defs window_ten_am sample_defs edge_mail_def)
  have d: "map to_addr (attempted (snd (snd (checkAndSendReminders_cron bouncing ten_am
                                          (table [rent, milk]) quiet))))
       = [''asha@example.in'', ''ravi@example.in'']"
     "map to_addr (delivered (snd (snd (checkAndSendReminders_cron bouncing ten_am
                                          (table [rent, milk]) quiet)))) = [''ravi@example.in'']"
    by (simp_all add: tick_defs window_ten_am_plain sample_defs Let_def)
  from a d show ?thesis
    by (simp add: c) (simp add: quiet_def edge_mail_def)
qed

text \<open>
  C3. The claim: a matched task whose owner does not resolve is skipped alone and the other
  matches are still processed. A task without owner precedes a task with one. In
  \<open>index.js\<close> and in the cron version the row comes back with a null owner, building the
  message raises, and the exception ends the loop: the second task is not attempted, and
  \<open>index.js\<close> records nothing. The first version joins the two tables, so the task without
  owner is not among the rows and the second task is mailed.
\<close>

theorem unresolved_owner_ends_the_loop:
  "selected_index working ten_am (table [orphan, milk]) = [orphan, milk]
   \<and> embed_logindata (table [orphan, milk]) orphan = (orphan, None)
   \<and> checkAndSendReminders_index working ten_am (table [orphan, milk]) quiet
       = (Returned, table [orphan, milk], quiet)
   \<and> selected_cron lenient ten_am (table [orphan, milk]) = [orphan, milk]
   \<and> attempted (snd (snd (checkAndSendReminders_cron lenient ten_am
                             (table [orphan, milk]) quiet))) = []
   \<and> selected_pg working ten_am (table [orphan, milk]) = [milk]
   \<and> map to_addr (delivered (snd (snd (checkAndSendReminders_pg working ten_am
                                          (table [orphan, milk]) quiet)))) = [''ravi@example.in'']"
proof -
  have a: "selected_index working ten_am (table [orphan, milk]) = [orphan, milk]"
    by (simp add: selected_index_def window_ten_am select_due_index_def embed_logindata_def
        sample_defs)
  have b: "embed_logindata (table [orphan, milk]) orphan = (orphan, None)"
    by (simp add: embed_logindata_def sample_defs)
  have c: "checkAndSendReminders_index working ten_am (table [orphan, milk]) quiet
       = (Returned, table [orphan, milk], quiet)"
    by (simp add: tick_defs window_ten_am sample_defs)
  have d: "selected_cron lenient ten_am (table [orphan, milk]) = [orphan, milk]"
    by (simp add: selected_cron_def select_due_cron_def embed_logindata_def sample_defs)
  have e: "attempted (snd (snd (checkAndSendReminders_cron lenient ten_am
                             (table [orphan, milk]) quiet))) = []"
    by (simp add: tick_defs sample_defs Let_def)
  have f: "selected_pg working ten_am (table [orphan, milk]) = [milk]"
    by (simp add: selected_pg_def select_due_pg_def joined_def between_def window_ten_am
        bounds_ten_am sample_times sample_defs)
  have g: "map to_addr (delivered (snd (snd (checkAndSendReminders_pg working ten_am
                                          (table [orphan, milk]) quiet)))) = [''ravi@example.in'']"
    by (simp add: tick_defs window_ten_am bounds_ten_am sample_times sample_defs)
  from a b c d e f g show ?thesis by blast
qed

text \<open>
  C9. The claim: the messages dispatched do not depend on the order of the rows the query
  returns. The same two tasks in the two possible table orders, the transporter rejecting
  the mail of the first account: \<open>index.js\<close> attempts one message in one order and two in the
  other.
\<close>

theorem index_depends_on_row_order:
  "mset (post (table [rent, milk])) = mset (post (table [milk, rent]))
   \<and> map to_addr (attempted (snd (snd (checkAndSendReminders_index bouncing ten_am
                                          (table [rent, milk]) quiet)))) = [''asha@example.in'']
   \<and> map to_addr (attempted (snd (snd (checkAndSendReminders_index bouncing ten_am
                                          (table [milk, rent]) quiet))))
       = [''ravi@example.in'', ''asha@example.in'']
   \<and> mset (attempted (snd (snd (checkAndSendReminders_index bouncing ten_am
                                   (table [rent, milk]) quiet))))
       \<noteq> mset (attempted (snd (snd (checkAndSendReminders_index bouncing ten_am
                                       (table [milk, rent]) quiet))))"
proof -
  have a: "mset (post (table [rent, milk])) = mset (post (table [milk, rent]))"
    by (simp add: table_def add.commute)
  have b: "map to_addr (attempted (snd (snd (checkAndSendReminders_index bouncing ten_am
                                          (table [rent, milk]) quiet)))) = [''asha@example.in'']"
    by (simp add: tick_defs window_ten_am sample_defs)
  have c: "map to_addr (attempted (snd (snd (checkAndSendReminders_index bouncing ten_am
                                          (table [milk, rent]) quiet))))
       = [''ravi@example.in'', ''asha@example.in'']"
    by (simp add: tick_defs window_ten_am sample_defs)
  have "size (mset (attempted (snd (snd (checkAndSendReminders_index bouncing ten_am
                                   (table [rent, milk]) quiet)))))
       \<noteq> size (mset (attempted (snd (snd (checkAndSendReminders_index bouncing ten_am
                                       (table [milk, rent]) quiet)))))"
    using arg_cong [OF b, of length] arg_cong [OF c, of length] by simp
  then have d: "mset (attempted (snd (snd (checkAndSendReminders_index bouncing ten_am
                                   (table [rent, milk]) quiet))))
       \<noteq> mset (attempted (snd (snd (checkAndSendReminders_index bouncing ten_am
                                       (table [milk, rent]) quiet))))"
    by metis
  from a b c d show ?thesis by blast
qed

text \<open>
  The loop of the cron version, for comparison: when every row has its owner, no exception
  leaves the loop and the message of every row is handed to the transporter, whatever the
  transporter answers; the messages attempted are then the same multiset for every order of
  the rows.
\<close>

lemma for_rows_cron_attempts_every_message:
  "list_all (\<lambda>row. snd row \<noteq> None) rows \<Longrightarrow>
     fst (for_rows_cron sv rows fx) = None
     \<and> map Inr (attempted (snd (for_rows_cron sv rows fx)))
         = map Inr (attempted fx) @ map (mailOptions_cron sv) rows"
proof (induction rows arbitrary: fx)
  case Nil
  then show ?case by simp
next
  case (Cons row rows)
  from Cons.prems obtain l where l: "snd row = Some l" by auto
  from Cons.prems have rest: "list_all (\<lambda>row. snd row \<noteq> None) rows" by simp
  obtain m where m: "mailOptions_cron sv row = Inr m"
    using l by (simp add: mailOptions_cron_def)
  show ?case
    using Cons.IH [OF rest] m by (cases "sendMail sv m") simp_all
qed

lemma for_rows_cron_order_insensitive:
  assumes "mset rows = mset rows'" and "list_all (\<lambda>row. snd row \<noteq> None) rows"
  shows "mset (attempted (snd (for_rows_cron sv rows fx)))
           = mset (attempted (snd (for_rows_cron sv rows' fx)))"
proof -
  from assms have all': "list_all (\<lambda>row. snd row \<noteq> None) rows'"
    by (metis list_all_iff set_mset_mset)
  let ?inr = "Inr :: mailOptions \<Rightarrow> error + mailOptions"
  have "image_mset ?inr (mset (attempted (snd (for_rows_cron sv rows fx))))
          = mset (map ?inr (attempted fx)) + image_mset (mailOptions_cron sv) (mset rows)"
    using for_rows_cron_attempts_every_message [OF assms(2), of sv fx]
    by (metis mset_append mset_map)
  moreover have "image_mset ?inr (mset (attempted (snd (for_rows_cron sv rows' fx))))
          = mset (map ?inr (attempted fx)) + image_mset (mailOptions_cron sv) (mset rows')"
    using for_rows_cron_attempts_every_message [OF all', of sv fx]
    by (metis mset_append mset_map)
  ultimately have "image_mset ?inr (mset (attempted (snd (for_rows_cron sv rows fx))))
          = image_mset ?inr (mset (attempted (snd (for_rows_cron sv rows' fx))))"
    using assms(1) by simp
  then have "image_mset projr (image_mset ?inr (mset (attempted (snd (for_rows_cron sv rows fx)))))
          = image_mset projr (image_mset ?inr (mset (attempted (snd (for_rows_cron sv rows' fx)))))"
    by simp
  then show ?thesis
    by (simp add: multiset.map_comp comp_def)
qed

section \<open>Every task route stays within the rows of its user\<close>

lemma set_insert_desc: "set (insert_desc p qs) = insert p (set qs)"
  by (induction qs) auto

lemma set_order_desc: "set (order_desc ps) = set ps"
  by (induction ps) (simp_all add: order_desc_def set_insert_desc)

lemma filter_owned:
  "(\<And>p. keep p \<Longrightarrow> owned_by userId p) \<Longrightarrow>
     filter keep (filter (owned_by userId) ps) = filter keep ps"
  by (induction ps) auto

lemma select_posts_restrict:
  "(\<And>p. keep p \<Longrightarrow> owned_by userId p) \<Longrightarrow>
     fst (select_posts sv (restrict_to userId st) keep) = fst (select_posts sv st keep)"
  by (simp add: select_posts_def restrict_to_def filter_owned del: filter_filter
      split: option.splits)

lemma select_posts_store: "snd (select_posts sv st keep) = st"
  by (simp add: select_posts_def split: option.splits)

lemma select_posts_rows:
  "select_posts sv st keep = (Inr rows, st') \<Longrightarrow> set rows = {p \<in> set (post st). keep p}"
  by (auto simp: select_posts_def split: option.splits)

lemma isolated_read:
  "snd out = st \<Longrightarrow> list_all (owned_by userId) (rows_of (body (fst out))) \<Longrightarrow>
     isolated userId st out"
  by (simp add: isolated_def)

lemma get_tasks_isolated: "isolated userId st (get_tasks sv userId st)"
  by (auto simp: isolated_def get_tasks_def select_posts_def failed_def list_all_iff
      set_order_desc owned_by_def split: option.splits)

lemma get_taskschange_isolated: "isolated userId st (get_taskschange sv userId st)"
  by (auto simp: isolated_def get_taskschange_def select_posts_def failed_def list_all_iff
      set_order_desc owned_by_def split: option.splits)

lemma get_reminders_isolated: "isolated userId st (get_reminders sv userId st)"
  by (auto simp: isolated_def get_reminders_def select_posts_def failed_def
      split: option.splits)

lemma get_reminderspie_isolated: "isolated userId st (get_reminderspie sv userId st)"
  by (auto simp: isolated_def get_reminderspie_def select_posts_def failed_def
      split: option.splits)

lemma post_tasks_isolated: "isolated userId st (post_tasks sv userId req st)"
  by (auto simp: isolated_def post_tasks_def insert_post_def failed_def owned_by_def
      split: option.splits)

lemma others_after_update:
  "(\<And>q. user_id (change q) = user_id q) \<Longrightarrow>
     filter (\<lambda>p. \<not> owned_by userId p)
        (map (\<lambda>q. if p_id q = i \<and> user_id q = Some userId then change q else q) ps)
       = filter (\<lambda>p. \<not> owned_by userId p) ps"
  by (induction ps) (auto simp: owned_by_def)

lemma update_single_isolated:
  assumes keeps: "\<And>q. user_id (change q) = user_id q"
    and upd: "update_single sv st ident userId change = (r, st')"
  shows "filter (\<lambda>p. \<not> owned_by userId p) (post st') = filter (\<lambda>p. \<not> owned_by userId p) (post st)
         \<and> logindata st' = logindata st
         \<and> (case r of Inl e \<Rightarrow> True | Inr row \<Rightarrow> owned_by userId row)"
proof (cases "store_fault sv")
  case (Some e)
  with upd show ?thesis by (auto simp: update_single_def)
next
  case None
  show ?thesis
  proof (cases "number ident")
    case nonum: None
    with None upd show ?thesis by (auto simp: update_single_def)
  next
    case (Some i)
    show ?thesis
    proof (cases "filter (\<lambda>p. p_id p = i \<and> user_id p = Some userId) (post st)")
      case Nil
      with None Some upd show ?thesis by (auto simp: update_single_def)
    next
      case (Cons p ps)
      have "p \<in> set (filter (\<lambda>p. p_id p = i \<and> user_id p = Some userId) (post st))"
        unfolding Cons by simp
      then have own: "user_id p = Some userId" by simp
      show ?thesis
      proof (cases ps)
        case Nil
        with Cons None Some upd own show ?thesis
          by (auto simp: update_single_def others_after_update [OF keeps, unfolded owned_by_def]
              owned_by_def keeps)
      next
        case (Cons p' ps')
        with \<open>filter (\<lambda>p. p_id p = i \<and> user_id p = Some userId) (post st) = p # ps\<close>
          None Some upd show ?thesis
          by (auto simp: update_single_def)
      qed
    qed
  qed
qed

lemma update_single_restrict:
  "fst (update_single sv (restrict_to userId st) ident userId change)
     = fst (update_single sv st ident userId change)"
proof -
  have "filter (\<lambda>p. p_id p = i \<and> user_id p = Some userId) (filter (owned_by userId) (post st))
          = filter (\<lambda>p. p_id p = i \<and> user_id p = Some userId) (post st)" for i
    by (rule filter_owned) (simp add: owned_by_def)
  then show ?thesis
    by (simp add: update_single_def restrict_to_def del: filter_filter
        split: option.splits list.splits)
qed

lemma set_status_owner: "user_id (set_status c cu q) = user_id q"
  by (simp add: set_status_def)

lemma set_content_owner: "user_id (set_content t ty q) = user_id q"
  by (simp add: set_content_def)

lemma patch_status_isolated: "isolated userId st (patch_status msg sv userId req st)"
proof -
  obtain r st' where u: "update_single sv st (param_id req) userId
             (set_status (b_completestatus req) (b_currentstatus req)) = (r, st')"
    by (cases "update_single sv st (param_id req) userId
             (set_status (b_completestatus req) (b_currentstatus req))")
  from update_single_isolated [OF set_status_owner u] u show ?thesis
    by (cases r) (simp_all add: isolated_def patch_status_def failed_def)
qed

lemma put_tasks_isolated: "isolated userId st (put_tasks sv userId req st)"
proof (cases "falsy (b_editedtask req)")
  case True
  then show ?thesis by (simp add: isolated_def put_tasks_def)
next
  case False
  obtain r st' where u: "update_single sv st (param_id req) userId
             (set_content (b_editedtask req) (b_editedtype req)) = (r, st')"
    by (cases "update_single sv st (param_id req) userId
             (set_content (b_editedtask req) (b_editedtype req))")
  from update_single_isolated [OF set_content_owner u] u False show ?thesis
    by (cases r) (simp_all add: isolated_def put_tasks_def failed_def)
qed

lemma handler_isolated: "isolated userId st (handler r sv userId req st)"
  by (cases r)
    (simp_all add: get_tasks_isolated get_taskschange_isolated post_tasks_isolated
      patch_status_isolated put_tasks_isolated get_reminders_isolated
      get_reminderspie_isolated patch_tasks_def patch_dtasks_def patch_taskschange_def)

lemma handler_restrict:
  "fst (handler r sv userId req (restrict_to userId st)) = fst (handler r sv userId req st)"
proof (cases r)
  case GET_tasks
  have "fst (select_posts sv (restrict_to userId st)
               (\<lambda>p. user_id p = Some userId \<and> completestatus p = Some False \<and> currentstatus p = Some False))
        = fst (select_posts sv st
               (\<lambda>p. user_id p = Some userId \<and> completestatus p = Some False \<and> currentstatus p = Some False))"
    by (rule select_posts_restrict) (simp add: owned_by_def)
  then show ?thesis using GET_tasks
    by (auto simp: get_tasks_def split: prod.splits sum.splits)
next
  case GET_taskschange
  have "fst (select_posts sv (restrict_to userId st)
               (\<lambda>p. user_id p = Some userId \<and> completestatus p = Some True \<and> currentstatus p = Some False))
        = fst (select_posts sv st
               (\<lambda>p. user_id p = Some userId \<and> completestatus p = Some True \<and> currentstatus p = Some False))"
    by (rule select_posts_restrict) (simp add: owned_by_def)
  then show ?thesis using GET_taskschange
    by (auto simp: get_taskschange_def split: prod.splits sum.splits)
next
  case POST_tasks
  then show ?thesis
    by (auto simp: post_tasks_def insert_post_def restrict_to_def split: option.splits)
next
  case PATCH_tasks
  then show ?thesis
    using update_single_restrict [of sv userId st "param_id req"
        "set_status (b_completestatus req) (b_currentstatus req)"]
    by (auto simp: patch_tasks_def patch_status_def split: prod.splits sum.splits)
next
  case PATCH_dtasks
  then show ?thesis
    using update_single_restrict [of sv userId st "param_id req"
        "set_status (b_completestatus req) (b_currentstatus req)"]
    by (auto simp: patch_dtasks_def patch_status_def split: prod.splits sum.splits)
next
  case PUT_tasks
  then show ?thesis
    using update_single_restrict [of sv userId st "param_id req"
        "set_content (b_editedtask req) (b_editedtype req)"]
    by (auto simp: put_tasks_def split: prod.splits sum.splits)
next
  case PATCH_taskschange
  then show ?thesis
    using update_single_restrict [of sv userId st "param_id req"
        "set_status (b_completestatus req) (b_currentstatus req)"]
    by (auto simp: patch_taskschange_def patch_status_def split: prod.splits sum.splits)
next
  case GET_reminders
  have "fst (select_posts sv (restrict_to userId st) (\<lambda>p. user_id p = Some userId))
        = fst (select_posts sv st (\<lambda>p. user_id p = Some userId))"
    by (rule select_posts_restrict) (simp add: owned_by_def)
  then show ?thesis using GET_reminders
    by (auto simp: get_reminders_def split: prod.splits sum.splits)
next
  case GET_reminderspie
  have "fst (select_posts sv (restrict_to userId st)
               (\<lambda>p. user_id p = Some userId \<and> completestatus p = Some True \<and> currentstatus p = Some True))
        = fst (select_posts sv st
               (\<lambda>p. user_id p = Some userId \<and> completestatus p = Some True \<and> currentstatus p = Some True))"
    by (rule select_posts_restrict) (simp add: owned_by_def)
  then show ?thesis using GET_reminderspie
    by (auto simp: get_reminderspie_def split: prod.splits sum.splits)
qed

text \<open>
  C10. For a request whose token validates to \<open>userId\<close>, whichever of the nine task routes
  it addresses (pending list, completed list, create, mark done, hide, edit, undo, the
  reminders summary and the pie summary): every task row in the response belongs to
  \<open>userId\<close>, the rows of all other users and the accounts are left as they were, and the
  response is the one the route gives on the table cut down to the rows of \<open>userId\<close>, so
  nothing in it derives from another user's task.
\<close>

theorem serve_isolated:
  "validateToken sv req = Inr (userId, mail) \<Longrightarrow>
     isolated userId st (serve r sv req st)
     \<and> fst (serve r sv req (restrict_to userId st)) = fst (serve r sv req st)"
  by (simp add: serve_def handler_isolated handler_restrict)

text \<open>A request that does not pass \<open>validateToken\<close> gets the refusal and changes nothing.\<close>

lemma serve_denied:
  "validateToken sv req = Inl denied \<Longrightarrow> serve r sv req st = (denied, st)"
  by (simp add: serve_def)


lemma ravi_token:
  "validateToken working (authorized ''Bearer tok-ravi'') = Inr (2, ''ravi@example.in'')"
  "validateToken working ((authorized ''Bearer tok-ravi'')\<lparr>param_id := ''1''\<rparr>)
     = Inr (2, ''ravi@example.in'')"
  by (simp_all add: validateToken_def bearer_token_def authorized_def working_def)

text \<open>
  The second user marks their own task done; the same request aimed at the first user's
  task changes nothing.
\<close>

theorem serve_isolated_witness:
  "validateToken working (authorized ''Bearer tok-ravi'') = Inr (2, ''ravi@example.in'')
   \<and> isolated 2 (table [rent, milk])
        (serve PATCH_tasks working (authorized ''Bearer tok-ravi'') (table [rent, milk]))
   \<and> fst (serve PATCH_tasks working (authorized ''Bearer tok-ravi'')
             (restrict_to 2 (table [rent, milk])))
       = fst (serve PATCH_tasks working (authorized ''Bearer tok-ravi'') (table [rent, milk]))
   \<and> post (snd (serve PATCH_tasks working (authorized ''Bearer tok-ravi'') (table [rent, milk])))
       = [rent, milk\<lparr>completestatus := Some True\<rparr>]
   \<and> serve PATCH_tasks working ((authorized ''Bearer tok-ravi'')\<lparr>param_id := ''1''\<rparr>)
        (table [rent, milk])
       = (failed ''Failed to update task status'', table [rent, milk])"
proof -
  have a: "post (snd (serve PATCH_tasks working (authorized ''Bearer tok-ravi'') (table [rent, milk])))
       = [rent, milk\<lparr>completestatus := Some True\<rparr>]"
    by (simp add: serve_def ravi_token patch_tasks_def patch_status_def update_single_def
        set_status_def digit_val_def)
      (simp add: authorized_def sample_defs digit_val_def set_status_def)
  have b: "serve PATCH_tasks working ((authorized ''Bearer tok-ravi'')\<lparr>param_id := ''1''\<rparr>)
        (table [rent, milk])
       = (failed ''Failed to update task status'', table [rent, milk])"
    by (simp add: serve_def ravi_token patch_tasks_def patch_status_def update_single_def
        set_status_def digit_val_def)
      (simp add: authorized_def sample_defs digit_val_def set_status_def)
  from serve_isolated [OF ravi_token(1), of "table [rent, milk]" PATCH_tasks] ravi_token(1) a b
  show ?thesis by blast
qed

end
